theory Spec2Isabelle
  imports Main "HOL-Library.Word"
begin

unbundle bit_operations_syntax

section \<open>Data of the end device (main.cpp, LoRa\_Device\_01.h)\<close>

type_synonym u8 = "8 word"
type_synonym u16 = "16 word"
type_synonym u32 = "32 word"

text \<open>
  The constants of main.cpp. The three back-up registers are the HAL's
  \<^verbatim>\<open>RTC_BKP_DR10\<close>, \<^verbatim>\<open>RTC_BKP_DR11\<close> and \<^verbatim>\<open>RTC_BKP_DR12\<close>; the register bank is
  a function from the register index to its 32-bit content.
\<close>

definition DATAVALID :: u32 where
  "DATAVALID = 67329752"

definition BKP_R_DATAVALID :: nat where
  "BKP_R_DATAVALID = 10"

definition BKP_R_FCNT :: nat where
  "BKP_R_FCNT = 11"

definition BKP_R_XMITCNT :: nat where
  "BKP_R_XMITCNT = 12"

definition REJOIN_LIMIT :: int where
  "REJOIN_LIMIT = 300"

definition JOINMODE_OTAA :: int where
  "JOINMODE_OTAA = 1"

definition JOINMODE_ABP :: int where
  "JOINMODE_ABP = 2"

text \<open>
  \<^verbatim>\<open>OP_TXRXPEND\<close> is a bit of \<^verbatim>\<open>LMIC.opmode\<close> declared in lmic.h, which is not among
  the sources; it has the value of the radio library. No result below depends on it.
\<close>

definition OP_TXRXPEND :: u16 where
  "OP_TXRXPEND = 0x0080"

text \<open>\<^verbatim>\<open>struct eepromdata_t\<close>: the record kept in EEPROM.\<close>

record eepromdata_t =
  datavalid :: u32
  fcnt :: u32
  joinedFlag :: bool
  devaddr :: u32
  nwkSKey :: "u8 list"
  appSKey :: "u8 list"

text \<open>
  The part of the radio library's \<^verbatim>\<open>LMIC\<close> structure that main.cpp reads or writes.
  \<open>pendTx\<close> holds what \<^verbatim>\<open>LMIC_setTxData2\<close> was given (port, data, confirmed),
  \<open>linkCheckMode\<close> what \<^verbatim>\<open>LMIC_setLinkCheckMode\<close> was given. What the library does
  with them on the air is outside the sources: the library's state is an input
  wherever it reports an event.
\<close>

record lmic_t =
  opmode :: u16
  seqnoUp :: u32
  netid :: u32
  lmic_devaddr :: u32
  lmic_nwkSKey :: "u8 list"
  lmic_appSKey :: "u8 list"
  pendTx :: "(u8 \<times> string \<times> u8) option"
  linkCheckMode :: "u8 option"

datatype ev_t = EV_JOINED | EV_TXDONE | EV_TXCOMPLETE | EV_other nat

text \<open>
  The state of the program. \<open>EEPROM\<close> is the content of the emulated EEPROM and
  \<open>bkp\<close> the RTC back-up registers: the two stores that outlive a boot. The other
  fields are the globals of main.cpp and LoRa\_Device\_01.h, the library's \<^verbatim>\<open>LMIC\<close>,
  the levels written to the LED pin in order (\<open>True\<close> is \<^verbatim>\<open>HIGH\<close>), and the
  argument of \<^verbatim>\<open>LowPower.shutdown\<close> once it was called. The byte-wise copy of
  \<^verbatim>\<open>readEEPROMdata\<close> and \<^verbatim>\<open>saveEEPROMdata\<close> moves the whole structure, so the EEPROM
  holds one \<open>eepromdata_t\<close>. Diagnostic output (\<^verbatim>\<open>debug_printf\<close>) is left out.
\<close>

record state =
  EEPROM :: eepromdata_t
  bkp :: "nat \<Rightarrow> u32"
  eepromdata :: eepromdata_t
  tx_finished :: bool
  xmitcount :: u32
  JoinMode :: int
  DevAddr :: u32
  NwkSKey :: "u8 list"
  AppSKey :: "u8 list"
  tx_interval_sec :: u32
  LMIC :: lmic_t
  LED_out :: "bool list"
  shutdown :: "u32 option"

section \<open>Drivers\<close>

definition getBackupRegister :: "nat \<Rightarrow> state \<Rightarrow> u32" where
  "getBackupRegister r s = bkp s r"

definition setBackupRegister :: "nat \<Rightarrow> u32 \<Rightarrow> state \<Rightarrow> state" where
  "setBackupRegister r v s = s\<lparr>bkp := (bkp s)(r := v)\<rparr>"

definition digitalWrite :: "bool \<Rightarrow> state \<Rightarrow> state" where
  "digitalWrite v s = s\<lparr>LED_out := LED_out s @ [v]\<rparr>"

definition memcpy :: "'a list \<Rightarrow> 'a list \<Rightarrow> nat \<Rightarrow> 'a list" where
  "memcpy dst src n = take n src @ drop n dst"

definition readEEPROMdata :: "state \<Rightarrow> state" where
  "readEEPROMdata s = s\<lparr>eepromdata := EEPROM s\<rparr>"

definition saveEEPROMdata :: "state \<Rightarrow> state" where
  "saveEEPROMdata s = s\<lparr>EEPROM := eepromdata s\<rparr>"

definition LMIC_setTxData2 :: "u8 \<Rightarrow> string \<Rightarrow> nat \<Rightarrow> u8 \<Rightarrow> state \<Rightarrow> state" where
  "LMIC_setTxData2 port dat dlen confirmed s =
     s\<lparr>LMIC := (LMIC s)\<lparr>pendTx := Some (port, take dlen dat, confirmed)\<rparr>\<rparr>"

definition LMIC_setSession :: "u32 \<Rightarrow> u32 \<Rightarrow> u8 list \<Rightarrow> u8 list \<Rightarrow> state \<Rightarrow> state" where
  "LMIC_setSession nid da nwk app s =
     s\<lparr>LMIC := (LMIC s)\<lparr>netid := nid, lmic_devaddr := da,
                         lmic_nwkSKey := memcpy (lmic_nwkSKey (LMIC s)) nwk 16,
                         lmic_appSKey := memcpy (lmic_appSKey (LMIC s)) app 16\<rparr>\<rparr>"

definition LMIC_setLinkCheckMode :: "u8 \<Rightarrow> state \<Rightarrow> state" where
  "LMIC_setLinkCheckMode m s = s\<lparr>LMIC := (LMIC s)\<lparr>linkCheckMode := Some m\<rparr>\<rparr>"

section \<open>Formatting the test packet\<close>

text \<open>\<^verbatim>\<open>sprintf ( payload, "Test %d", eepromdata.fcnt )\<close>: the counter is printed as a
  signed 32-bit decimal.\<close>

function dec_digits :: "nat \<Rightarrow> string" where
  "dec_digits n =
     (if n < 10 then [char_of (48 + n)]
      else dec_digits (n div 10) @ [char_of (48 + n mod 10)])"
  by pat_completeness auto
termination
  by (relation "measure id") auto

definition sprintf_d :: "int \<Rightarrow> string" where
  "sprintf_d i = (if i < 0 then CHR ''-'' # dec_digits (nat (- i)) else dec_digits (nat i))"

definition test_payload :: "u32 \<Rightarrow> string" where
  "test_payload c = ''Test '' @ sprintf_d (sint c)"

section \<open>The functions of main.cpp\<close>

definition saveOTAAkeys :: "state \<Rightarrow> state" where
  "saveOTAAkeys s =
     saveEEPROMdata
       (s\<lparr>eepromdata := (eepromdata s)
            \<lparr>joinedFlag := True,
             devaddr := lmic_devaddr (LMIC s),
             nwkSKey := memcpy (nwkSKey (eepromdata s)) (lmic_nwkSKey (LMIC s)) 16,
             appSKey := memcpy (appSKey (eepromdata s)) (lmic_appSKey (LMIC s)) 16\<rparr>\<rparr>)"

fun onLmicEvent :: "ev_t \<Rightarrow> state \<Rightarrow> state" where
  "onLmicEvent EV_JOINED s = LMIC_setLinkCheckMode 0 s"
| "onLmicEvent EV_TXDONE s = s"
| "onLmicEvent EV_TXCOMPLETE s =
     (let s1 = s\<lparr>eepromdata := (eepromdata s)\<lparr>fcnt := seqnoUp (LMIC s)\<rparr>\<rparr>;
          s2 = setBackupRegister BKP_R_FCNT (fcnt (eepromdata s1)) s1
      in s2\<lparr>tx_finished := True\<rparr>)"
| "onLmicEvent (EV_other n) s = s"

definition send_packet :: "state \<Rightarrow> state" where
  "send_packet s =
     (if opmode (LMIC s) AND OP_TXRXPEND \<noteq> 0 then s
      else
        let s1 = digitalWrite False s;
            payload = test_payload (fcnt (eepromdata s1));
            s2 = LMIC_setTxData2 1 payload (length payload) 0 s1;
            s3 = digitalWrite True s2
        in if fcnt (eepromdata s3) mod 100 = 0 then saveEEPROMdata s3 else s3)"

text \<open>\<^verbatim>\<open>retrieve_fcnt\<close>, in three steps as the source has them: the EEPROM record,
  the back-up registers, the deferred save. \<open>savflag\<close> is the local of that name.\<close>

definition retrieve_eeprom :: "state \<Rightarrow> state \<times> bool" where
  "retrieve_eeprom s =
     (let s1 = readEEPROMdata s
      in if datavalid (eepromdata s1) \<noteq> DATAVALID
         then (s1\<lparr>eepromdata := (eepromdata s1)
                     \<lparr>datavalid := DATAVALID, fcnt := 0, joinedFlag := False\<rparr>\<rparr>, True)
         else (s1\<lparr>eepromdata := (eepromdata s1)
                     \<lparr>fcnt := fcnt (eepromdata s1) + 101\<rparr>\<rparr>, False))"

definition retrieve_rtc :: "bool \<Rightarrow> state \<times> bool \<Rightarrow> state \<times> bool" where
  "retrieve_rtc bckValid p =
     (let s = fst p; savflag = snd p
      in if bckValid
         then
           (let bckVal = getBackupRegister BKP_R_FCNT s;
                s1 = s\<lparr>xmitcount := getBackupRegister BKP_R_XMITCNT s\<rparr>;
                savflag1 = (if bckVal > fcnt (eepromdata s1) + 100 then True else savflag)
            in (s1\<lparr>eepromdata := (eepromdata s1)\<lparr>fcnt := bckVal\<rparr>\<rparr>, savflag1))
         else
           (let s1 = setBackupRegister BKP_R_DATAVALID DATAVALID s;
                s2 = setBackupRegister BKP_R_FCNT (fcnt (eepromdata s1)) s1;
                s3 = setBackupRegister BKP_R_XMITCNT (word_of_int REJOIN_LIMIT) s2
            in (s3\<lparr>xmitcount := word_of_int REJOIN_LIMIT\<rparr>, savflag)))"

definition retrieve_fcnt :: "state \<Rightarrow> state" where
  "retrieve_fcnt s =
     (let bckVal = getBackupRegister BKP_R_DATAVALID s;
          bckValid = (bckVal = DATAVALID);
          p = retrieve_rtc bckValid (retrieve_eeprom s)
      in if snd p then saveEEPROMdata (fst p) else fst p)"

text \<open>\<^verbatim>\<open>setup\<close> from the call of \<^verbatim>\<open>retrieve_fcnt\<close> on. \<open>setup_join\<close> is the block
  under \<^verbatim>\<open>JoinMode == JOINMODE_OTAA\<close>, \<open>setup_abp\<close> the block under
  \<^verbatim>\<open>JoinMode == JOINMODE_ABP\<close>, \<open>setup_session\<close> what follows \<^verbatim>\<open>retrieve_fcnt\<close>
  up to the first \<^verbatim>\<open>send_packet\<close>. The serial port, the LED flashes, the clock and the
  channel mask that come before are not modelled; the library's state after
  \<^verbatim>\<open>LMIC_reset\<close> is part of the state the boot starts from.\<close>

definition setup_join :: "state \<Rightarrow> state" where
  "setup_join s =
     (if JoinMode s = JOINMODE_OTAA
      then
        (if sint (xmitcount s) < REJOIN_LIMIT \<and> joinedFlag (eepromdata s) = True
         then
           (let s1 = s\<lparr>DevAddr := devaddr (eepromdata s)\<rparr>;
                s2 = s1\<lparr>NwkSKey := memcpy (NwkSKey s1) (nwkSKey (eepromdata s1)) 16\<rparr>;
                s3 = s2\<lparr>AppSKey := memcpy (AppSKey s2) (appSKey (eepromdata s2)) 16\<rparr>;
                s4 = s3\<lparr>xmitcount := xmitcount s3 + 1\<rparr>;
                s5 = setBackupRegister BKP_R_XMITCNT (xmitcount s4) s4
            in s5\<lparr>JoinMode := JOINMODE_ABP\<rparr>)
         else
           (let s1 = s\<lparr>xmitcount := 0\<rparr>;
                s2 = setBackupRegister BKP_R_XMITCNT (xmitcount s1) s1;
                s3 = s2\<lparr>eepromdata := (eepromdata s2)\<lparr>joinedFlag := False\<rparr>\<rparr>
            in saveEEPROMdata s3))
      else s)"

definition setup_abp :: "state \<Rightarrow> state" where
  "setup_abp s =
     (if JoinMode s = JOINMODE_ABP
      then
        (let s1 = LMIC_setSession 1 (DevAddr s) (NwkSKey s) (AppSKey s) s
         in s1\<lparr>LMIC := (LMIC s1)\<lparr>seqnoUp := fcnt (eepromdata s1)\<rparr>\<rparr>)
      else s)"

definition setup_session :: "state \<Rightarrow> state" where
  "setup_session s =
     send_packet (digitalWrite True (setup_abp (setup_join (digitalWrite False s))))"

definition setup_main :: "state \<Rightarrow> state" where
  "setup_main s = setup_session (retrieve_fcnt s)"

text \<open>The sleep time of \<^verbatim>\<open>loop\<close>: \<open>ms\<close> is what \<^verbatim>\<open>millis()\<close> returned. All operands
  are \<^verbatim>\<open>uint32_t\<close>; the result is (\<^verbatim>\<open>sleeptime\<close>, \<^verbatim>\<open>sleeptime_sec\<close>).\<close>

definition compute_sleep :: "u32 \<Rightarrow> u32 \<Rightarrow> u32 \<times> u32" where
  "compute_sleep interval ms =
     (let sleeptime = interval * 1000 - ms - 50;
          sleeptime_sec = sleeptime div 1000
      in if sleeptime_sec > interval
         then (interval * 1000, interval)
         else (sleeptime, sleeptime_sec))"

text \<open>One pass of \<^verbatim>\<open>loop\<close> after \<^verbatim>\<open>os_runstep\<close> returned. The events that
  \<^verbatim>\<open>os_runstep\<close> delivers are applications of \<open>onLmicEvent\<close>.\<close>

definition loop :: "u32 \<Rightarrow> state \<Rightarrow> state" where
  "loop ms s =
     (if tx_finished s
      then
        (let s1 = s\<lparr>tx_finished := False\<rparr>;
             s2 = (if \<not> joinedFlag (eepromdata s1) then saveOTAAkeys s1 else s1)
         in s2\<lparr>shutdown := Some (fst (compute_sleep (tx_interval_sec s2) ms))\<rparr>)
      else s)"

section \<open>Boots\<close>

text \<open>A boot starts from the two stores and the library's state after its reset; the
  globals have the initial values of their declarations (those without one are
  zero).\<close>

definition power_up :: "eepromdata_t \<Rightarrow> (nat \<Rightarrow> u32) \<Rightarrow> lmic_t \<Rightarrow> state" where
  "power_up e regs lm =
     \<lparr>EEPROM = e, bkp = regs,
      eepromdata = \<lparr>datavalid = 0, fcnt = 0, joinedFlag = False, devaddr = 0,
                    nwkSKey = replicate 16 0, appSKey = replicate 16 0\<rparr>,
      tx_finished = False, xmitcount = 0, JoinMode = JOINMODE_OTAA,
      DevAddr = 0x260B05E3,
      NwkSKey = [0x37, 0x84, 0x9B, 0x30, 0x33, 0xEE, 0x5A, 0xD1,
                 0x37, 0xDB, 0xDE, 0x8C, 0x00, 0xD3, 0x51, 0x8B],
      AppSKey = [0x5C, 0x4E, 0x2A, 0x28, 0x22, 0xBB, 0x93, 0x4E,
                 0x99, 0xA4, 0x19, 0xA9, 0xDA, 0x34, 0x5F, 0x8E],
      tx_interval_sec = 60, LMIC = lm, LED_out = [], shutdown = None\<rparr>"

text \<open>The uplink counter a boot works with: \<^verbatim>\<open>eepromdata.fcnt\<close> when
  \<^verbatim>\<open>retrieve_fcnt\<close> returns.\<close>

definition effective_fcnt :: "state \<Rightarrow> u32" where
  "effective_fcnt s = fcnt (eepromdata (retrieve_fcnt s))"

text \<open>The branch that the boot takes in \<open>setup_join\<close>: \<^verbatim>\<open>JoinMode\<close> is
  \<^verbatim>\<open>JOINMODE_ABP\<close> afterwards when the saved session is resumed, and still
  \<^verbatim>\<open>JOINMODE_OTAA\<close> when the device has to join.\<close>

datatype session_policy = NeedsJoin | ResumingSession

definition selected_policy :: "state \<Rightarrow> session_policy" where
  "selected_policy s =
     (if JoinMode (setup_main s) = JOINMODE_ABP then ResumingSession else NeedsJoin)"

text \<open>The radio library reports the end of the transmission while its state is
  \<open>lm\<close>, and the main loop runs with \<^verbatim>\<open>millis()\<close> at \<open>ms\<close>.\<close>

definition tx_complete :: "lmic_t \<Rightarrow> u32 \<Rightarrow> state \<Rightarrow> state" where
  "tx_complete lm ms s = loop ms (onLmicEvent EV_TXCOMPLETE (s\<lparr>LMIC := lm\<rparr>))"

text \<open>The next boot: after a deep sleep or a warm reset both stores are as the
  program left them; after a cold power loss the back-up registers read zero.\<close>

definition wake_warm :: "lmic_t \<Rightarrow> state \<Rightarrow> state" where
  "wake_warm lm s = power_up (EEPROM s) (bkp s) lm"

definition wake_cold :: "lmic_t \<Rightarrow> state \<Rightarrow> state" where
  "wake_cold lm s = power_up (EEPROM s) (\<lambda>r. 0) lm"

text \<open>Histories. A boot ends either without a completed transmission or with
  \<^verbatim>\<open>EV_TXCOMPLETE\<close> (the library's state at the event, and \<^verbatim>\<open>millis()\<close>); then the
  device is reset: its stores survive (deep sleep, warm reset) or the back-up
  registers are lost (cold power loss); the last component is the library's state
  at the next boot. \<open>boot_counters\<close> lists the counter of every boot of a history.\<close>

datatype reset = DeepSleep | ColdLoss

type_synonym cycle = "(lmic_t \<times> u32) option \<times> reset \<times> lmic_t"

definition boot_end :: "(lmic_t \<times> u32) option \<Rightarrow> state \<Rightarrow> state" where
  "boot_end tx s =
     (case tx of None \<Rightarrow> setup_main s | Some (lm, ms) \<Rightarrow> tx_complete lm ms (setup_main s))"

fun next_boot :: "cycle \<Rightarrow> state \<Rightarrow> state" where
  "next_boot (tx, DeepSleep, lm2) s = wake_warm lm2 (boot_end tx s)"
| "next_boot (tx, ColdLoss, lm2) s = wake_cold lm2 (boot_end tx s)"

fun boot_counters :: "state \<Rightarrow> cycle list \<Rightarrow> u32 list" where
  "boot_counters s [] = [effective_fcnt s]"
| "boot_counters s (c # h) = effective_fcnt s # boot_counters (next_boot c s) h"

text \<open>What the checkpoint at every multiple of 100 in \<^verbatim>\<open>send_packet\<close> leaves in the two
  stores: when both are valid, the frame counter in the back-up registers is at
  least the \<^verbatim>\<open>fcnt\<close> of the EEPROM and at most the next multiple of 100 above it.\<close>

definition checkpointed :: "eepromdata_t \<Rightarrow> (nat \<Rightarrow> u32) \<Rightarrow> bool" where
  "checkpointed e regs =
     (if datavalid e = DATAVALID \<and> regs BKP_R_DATAVALID = DATAVALID
      then unat (fcnt e) \<le> unat (regs BKP_R_FCNT)
           \<and> unat (regs BKP_R_FCNT) \<le> (unat (fcnt e) div 100 + 1) * 100
      else True)"

text \<open>A join was completed on a boot when the boot had to join and the library
  reported a completed transmission: the counter of the next boot is then the one
  of the new session. \<open>session_counters\<close> lists the counters of a history session by
  session, a new session starting after every completed join.\<close>

definition join_completed :: "(lmic_t \<times> u32) option \<Rightarrow> state \<Rightarrow> bool" where
  "join_completed tx s =
     (case tx of None \<Rightarrow> False | Some p \<Rightarrow> selected_policy s = NeedsJoin)"

fun session_counters :: "state \<Rightarrow> cycle list \<Rightarrow> u32 list list" where
  "session_counters s [] = [[effective_fcnt s]]"
| "session_counters s ((tx, k, lm2) # h) =
     (if join_completed tx s
      then [effective_fcnt s] # session_counters (next_boot (tx, k, lm2) s) h
      else (case session_counters (next_boot (tx, k, lm2) s) h of
              [] \<Rightarrow> [[effective_fcnt s]]
            | seg # segs \<Rightarrow> (effective_fcnt s # seg) # segs))"


text \<open>What is taken for granted of the radio library, which is not among the
  sources: on a boot that resumed the session it reports a completed transmission
  only if it was idle when \<^verbatim>\<open>send_packet\<close> queued the packet (as it is after
  \<^verbatim>\<open>LMIC_reset\<close>), and then with the \<^verbatim>\<open>seqnoUp\<close> it was handed advanced by one. On a
  boot that joined, its \<^verbatim>\<open>seqnoUp\<close> is whatever the new session has. The counter of the
  boot is more than 201 below \<open>2^32\<close>, so that no addition of \<^verbatim>\<open>retrieve_fcnt\<close>
  wraps.\<close>

definition stack_step :: "(lmic_t \<times> u32) option \<Rightarrow> state \<Rightarrow> bool" where
  "stack_step tx s =
     (unat (effective_fcnt s) + 201 < 2 ^ 32
      \<and> (case tx of
            None \<Rightarrow> True
          | Some (lm, ms) \<Rightarrow>
              (case selected_policy s of
                 ResumingSession \<Rightarrow>
                   opmode (LMIC s) AND OP_TXRXPEND = 0 \<and> seqnoUp lm = effective_fcnt s + 1
               | NeedsJoin \<Rightarrow> True)))"

fun stack_steps :: "state \<Rightarrow> cycle list \<Rightarrow> bool" where
  "stack_steps s [] = True"
| "stack_steps s ((tx, k, lm2) # h) =
     (stack_step tx s \<and> stack_steps (next_boot (tx, k, lm2) s) h)"

section \<open>Example stores\<close>

text \<open>Concrete contents of the two stores and of the library's state, for the
  worked examples: the library after its reset, an EEPROM record of a joined device
  with counter 200, an erased EEPROM, and a bank of back-up registers given by its
  marker, frame counter and transmit count.\<close>

definition lmic_after_reset :: lmic_t where
  "lmic_after_reset = \<lparr>opmode = 0, seqnoUp = 0, netid = 0, lmic_devaddr = 0,
     lmic_nwkSKey = replicate 16 0, lmic_appSKey = replicate 16 0,
     pendTx = None, linkCheckMode = None\<rparr>"

definition saved_session :: eepromdata_t where
  "saved_session = \<lparr>datavalid = DATAVALID, fcnt = 200, joinedFlag = True,
     devaddr = 0x260B1234, nwkSKey = replicate 16 0x11, appSKey = replicate 16 0x22\<rparr>"

definition erased_record :: eepromdata_t where
  "erased_record = \<lparr>datavalid = 0xFFFFFFFF, fcnt = 0xFFFFFFFF, joinedFlag = True,
     devaddr = 0xFFFFFFFF, nwkSKey = replicate 16 0xFF, appSKey = replicate 16 0xFF\<rparr>"

definition bkp_bank :: "u32 \<Rightarrow> u32 \<Rightarrow> u32 \<Rightarrow> nat \<Rightarrow> u32" where
  "bkp_bank v c x = (\<lambda>r. 0)(BKP_R_DATAVALID := v, BKP_R_FCNT := c, BKP_R_XMITCNT := x)"

text \<open>A history of five boots: a join, a transmission on the resumed session, a cold
  power loss, a second join, and a boot that is reset before its transmission
  completes.\<close>

definition example_history :: "cycle list" where
  "example_history =
     [(Some (lmic_after_reset\<lparr>seqnoUp := 1\<rparr>, 5000), DeepSleep, lmic_after_reset),
      (Some (lmic_after_reset\<lparr>seqnoUp := 2\<rparr>, 5000), ColdLoss, lmic_after_reset),
      (Some (lmic_after_reset\<lparr>seqnoUp := 1\<rparr>, 5000), DeepSleep, lmic_after_reset),
      (None, DeepSleep, lmic_after_reset)]"

section \<open>Basic facts\<close>

lemma bkp_regs_distinct:
  "BKP_R_DATAVALID \<noteq> BKP_R_FCNT" "BKP_R_DATAVALID \<noteq> BKP_R_XMITCNT"
  "BKP_R_FCNT \<noteq> BKP_R_XMITCNT" "BKP_R_FCNT \<noteq> BKP_R_DATAVALID"
  "BKP_R_XMITCNT \<noteq> BKP_R_DATAVALID" "BKP_R_XMITCNT \<noteq> BKP_R_FCNT"
  by (simp_all add: BKP_R_DATAVALID_def BKP_R_FCNT_def BKP_R_XMITCNT_def)

lemmas driver_defs =
  getBackupRegister_def setBackupRegister_def digitalWrite_def readEEPROMdata_def
  saveEEPROMdata_def LMIC_setTxData2_def LMIC_setSession_def LMIC_setLinkCheckMode_def

lemmas retrieve_defs =
  retrieve_fcnt_def retrieve_rtc_def retrieve_eeprom_def REJOIN_LIMIT_def

lemmas example_defs = lmic_after_reset_def saved_session_def bkp_bank_def

lemma retrieve_fcnt_xmitcount:
  "xmitcount (retrieve_fcnt s) = (if bkp s BKP_R_DATAVALID = DATAVALID then bkp s BKP_R_XMITCNT else 300)"
  by (simp add: retrieve_defs driver_defs Let_def)

lemma retrieve_fcnt_bkp:
  "bkp (retrieve_fcnt s) =
     (if bkp s BKP_R_DATAVALID = DATAVALID then bkp s
      else (bkp s)(BKP_R_DATAVALID := DATAVALID,
                   BKP_R_FCNT := (if datavalid (EEPROM s) = DATAVALID then fcnt (EEPROM s) + 101 else 0),
                   BKP_R_XMITCNT := 300))"
  by (simp add: retrieve_defs driver_defs Let_def)

lemma retrieve_fcnt_fcnt:
  "fcnt (eepromdata (retrieve_fcnt s)) =
     (if bkp s BKP_R_DATAVALID = DATAVALID then bkp s BKP_R_FCNT
      else if datavalid (EEPROM s) = DATAVALID then fcnt (EEPROM s) + 101 else 0)"
  by (simp add: retrieve_defs driver_defs Let_def)

lemma retrieve_fcnt_joinedFlag:
  "joinedFlag (eepromdata (retrieve_fcnt s)) =
     (datavalid (EEPROM s) = DATAVALID \<and> joinedFlag (EEPROM s))"
  by (simp add: retrieve_defs driver_defs Let_def)

lemma retrieve_fcnt_session_fields:
  "devaddr (eepromdata (retrieve_fcnt s)) = devaddr (EEPROM s)"
  "nwkSKey (eepromdata (retrieve_fcnt s)) = nwkSKey (EEPROM s)"
  "appSKey (eepromdata (retrieve_fcnt s)) = appSKey (EEPROM s)"
  by (simp_all add: retrieve_defs driver_defs Let_def)

lemma retrieve_fcnt_EEPROM:
  "EEPROM (retrieve_fcnt s) =
     (if datavalid (EEPROM s) \<noteq> DATAVALID
         \<or> (bkp s BKP_R_DATAVALID = DATAVALID \<and> bkp s BKP_R_FCNT > fcnt (EEPROM s) + 101 + 100)
      then eepromdata (retrieve_fcnt s) else EEPROM s)"
  by (simp add: retrieve_defs driver_defs Let_def)

lemma retrieve_fcnt_frame:
  "JoinMode (retrieve_fcnt s) = JoinMode s" "LMIC (retrieve_fcnt s) = LMIC s"
  "DevAddr (retrieve_fcnt s) = DevAddr s" "NwkSKey (retrieve_fcnt s) = NwkSKey s"
  "AppSKey (retrieve_fcnt s) = AppSKey s" "LED_out (retrieve_fcnt s) = LED_out s"
  "tx_finished (retrieve_fcnt s) = tx_finished s" "shutdown (retrieve_fcnt s) = shutdown s"
  "tx_interval_sec (retrieve_fcnt s) = tx_interval_sec s"
  by (simp_all add: retrieve_defs driver_defs Let_def)


lemmas retrieve_fields = retrieve_fcnt_xmitcount retrieve_fcnt_bkp retrieve_fcnt_fcnt
  retrieve_fcnt_joinedFlag retrieve_fcnt_session_fields retrieve_fcnt_frame

lemmas session_defs = setup_session_def setup_join_def setup_abp_def send_packet_def
  driver_defs Let_def bkp_regs_distinct

lemma setup_session_join:
  assumes "JoinMode r = JOINMODE_OTAA"
    and "\<not> (sint (xmitcount r) < REJOIN_LIMIT \<and> joinedFlag (eepromdata r))"
  shows "JoinMode (setup_session r) = JOINMODE_OTAA"
    and "bkp (setup_session r) = (bkp r)(BKP_R_XMITCNT := 0)"
    and "xmitcount (setup_session r) = 0"
    and "eepromdata (setup_session r) = (eepromdata r)\<lparr>joinedFlag := False\<rparr>"
    and "EEPROM (setup_session r) = (eepromdata r)\<lparr>joinedFlag := False\<rparr>"
    and "(LMIC (setup_session r))\<lparr>pendTx := pendTx (LMIC r)\<rparr> = LMIC r"
    and "tx_finished (setup_session r) = tx_finished r"
  using assms by (auto simp add: session_defs JOINMODE_OTAA_def JOINMODE_ABP_def)

lemma setup_session_resume:
  assumes "JoinMode r = JOINMODE_OTAA"
    and "sint (xmitcount r) < REJOIN_LIMIT" and "joinedFlag (eepromdata r)"
  shows "JoinMode (setup_session r) = JOINMODE_ABP"
    and "bkp (setup_session r) = (bkp r)(BKP_R_XMITCNT := xmitcount r + 1)"
    and "xmitcount (setup_session r) = xmitcount r + 1"
    and "eepromdata (setup_session r) = eepromdata r"
    and "DevAddr (setup_session r) = devaddr (eepromdata r)"
    and "NwkSKey (setup_session r) = memcpy (NwkSKey r) (nwkSKey (eepromdata r)) 16"
    and "AppSKey (setup_session r) = memcpy (AppSKey r) (appSKey (eepromdata r)) 16"
    and "seqnoUp (LMIC (setup_session r)) = fcnt (eepromdata r)"
    and "netid (LMIC (setup_session r)) = 1"
    and "lmic_devaddr (LMIC (setup_session r)) = devaddr (eepromdata r)"
    and "lmic_nwkSKey (LMIC (setup_session r))
           = memcpy (lmic_nwkSKey (LMIC r)) (memcpy (NwkSKey r) (nwkSKey (eepromdata r)) 16) 16"
    and "lmic_appSKey (LMIC (setup_session r))
           = memcpy (lmic_appSKey (LMIC r)) (memcpy (AppSKey r) (appSKey (eepromdata r)) 16) 16"
    and "EEPROM (setup_session r) =
           (if opmode (LMIC r) AND OP_TXRXPEND = 0 \<and> fcnt (eepromdata r) mod 100 = 0
            then eepromdata r else EEPROM r)"
  using assms by (auto simp add: session_defs JOINMODE_OTAA_def JOINMODE_ABP_def)

lemma setup_session_pendTx:
  "pendTx (LMIC (setup_session r)) =
     (if opmode (LMIC r) AND OP_TXRXPEND \<noteq> 0 then pendTx (LMIC r)
      else Some (1, test_payload (fcnt (eepromdata r)), 0))"
  by (simp add: session_defs)

lemma setup_session_keeps:
  "bkp (setup_session r) BKP_R_FCNT = bkp r BKP_R_FCNT"
  "bkp (setup_session r) BKP_R_DATAVALID = bkp r BKP_R_DATAVALID"
  "fcnt (eepromdata (setup_session r)) = fcnt (eepromdata r)"
  "datavalid (eepromdata (setup_session r)) = datavalid (eepromdata r)"
  by (simp_all add: session_defs)

lemma setup_session_EEPROM_valid:
  "datavalid (eepromdata r) = DATAVALID \<Longrightarrow> datavalid (EEPROM r) = DATAVALID
     \<Longrightarrow> datavalid (EEPROM (setup_session r)) = DATAVALID"
  by (simp add: session_defs)

lemma power_up_fields:
  "EEPROM (power_up e regs lm) = e" "bkp (power_up e regs lm) = regs"
  "LMIC (power_up e regs lm) = lm" "JoinMode (power_up e regs lm) = JOINMODE_OTAA"
  "tx_finished (power_up e regs lm) = False"
  by (simp_all add: power_up_def)


lemma power_up_keys:
  "length (NwkSKey (power_up e regs lm)) = 16" "length (AppSKey (power_up e regs lm)) = 16"
  "DevAddr (power_up e regs lm) = 0x260B05E3"
  by (simp_all add: power_up_def)

lemma test_payload_205: "test_payload 205 = ''Test 205''"
  by code_simp

lemma retrieve_fcnt_bkp_fcnt:
  "bkp (retrieve_fcnt s) BKP_R_FCNT = fcnt (eepromdata (retrieve_fcnt s))"
  by (simp add: retrieve_fcnt_bkp retrieve_fcnt_fcnt bkp_regs_distinct)

lemma retrieve_fcnt_valid:
  "datavalid (eepromdata (retrieve_fcnt s)) = DATAVALID"
  "bkp (retrieve_fcnt s) BKP_R_DATAVALID = DATAVALID"
  "datavalid (EEPROM (retrieve_fcnt s)) = DATAVALID"
  by (simp_all add: retrieve_defs driver_defs Let_def bkp_regs_distinct)

lemma setup_main_stores:
  "bkp (setup_main s) BKP_R_DATAVALID = DATAVALID"
  "bkp (setup_main s) BKP_R_FCNT = effective_fcnt s"
  "datavalid (EEPROM (setup_main s)) = DATAVALID"
  "datavalid (eepromdata (setup_main s)) = DATAVALID"
  by (simp_all add: setup_main_def effective_fcnt_def setup_session_keeps
        setup_session_EEPROM_valid retrieve_fcnt_valid retrieve_fcnt_bkp_fcnt)

lemma tx_complete_stores:
  "bkp (tx_complete lm ms t) BKP_R_DATAVALID = bkp t BKP_R_DATAVALID"
  "bkp (tx_complete lm ms t) BKP_R_FCNT = seqnoUp lm"
  "bkp (tx_complete lm ms t) BKP_R_XMITCNT = bkp t BKP_R_XMITCNT"
  "datavalid (EEPROM (tx_complete lm ms t)) =
     (if joinedFlag (eepromdata t) then datavalid (EEPROM t) else datavalid (eepromdata t))"
  by (simp_all add: tx_complete_def loop_def saveOTAAkeys_def driver_defs Let_def
        bkp_regs_distinct)

lemma effective_fcnt_power_up:
  "effective_fcnt (power_up e regs lm) =
     (if regs BKP_R_DATAVALID = DATAVALID then regs BKP_R_FCNT
      else if datavalid e = DATAVALID then fcnt e + 101 else 0)"
  by (simp add: effective_fcnt_def retrieve_fcnt_fcnt power_up_fields)

lemma setup_session_abp_seqnoUp:
  "JoinMode (setup_session r) = JOINMODE_ABP \<Longrightarrow>
     seqnoUp (LMIC (setup_session r)) = fcnt (eepromdata r)"
  by (auto simp add: session_defs JOINMODE_OTAA_def JOINMODE_ABP_def split: if_splits)

lemmas closed_defs = effective_fcnt_def selected_policy_def setup_main_def session_defs
  retrieve_defs power_up_def example_defs JOINMODE_OTAA_def JOINMODE_ABP_def
  DATAVALID_def OP_TXRXPEND_def

section \<open>Validity markers after the reconciliation\<close>

text \<open>
  Claim C10. When \<^verbatim>\<open>retrieve_fcnt\<close> returns, \<^verbatim>\<open>eepromdata.datavalid\<close> and the back-up
  register \<^verbatim>\<open>BKP_R_DATAVALID\<close> both hold \<^verbatim>\<open>DATAVALID\<close>, whatever the two stores held
  before; the record in the EEPROM is marked valid too, and no later function of
  the boot (\<open>setup_join\<close>, \<open>setup_abp\<close>, \<open>send_packet\<close>, \<open>onLmicEvent\<close>, \<open>loop\<close>)
  writes either marker.
\<close>

theorem retrieve_fcnt_markers_valid:
  "datavalid (eepromdata (retrieve_fcnt s)) = DATAVALID
   \<and> bkp (retrieve_fcnt s) BKP_R_DATAVALID = DATAVALID
   \<and> datavalid (EEPROM (retrieve_fcnt s)) = DATAVALID
   \<and> datavalid (eepromdata (setup_join t)) = datavalid (eepromdata t)
   \<and> bkp (setup_join t) BKP_R_DATAVALID = bkp t BKP_R_DATAVALID
   \<and> datavalid (eepromdata (setup_abp t)) = datavalid (eepromdata t)
   \<and> bkp (setup_abp t) BKP_R_DATAVALID = bkp t BKP_R_DATAVALID
   \<and> datavalid (eepromdata (send_packet t)) = datavalid (eepromdata t)
   \<and> bkp (send_packet t) BKP_R_DATAVALID = bkp t BKP_R_DATAVALID
   \<and> datavalid (eepromdata (onLmicEvent ev t)) = datavalid (eepromdata t)
   \<and> bkp (onLmicEvent ev t) BKP_R_DATAVALID = bkp t BKP_R_DATAVALID
   \<and> datavalid (eepromdata (loop ms t)) = datavalid (eepromdata t)
   \<and> bkp (loop ms t) BKP_R_DATAVALID = bkp t BKP_R_DATAVALID"
proof -
  have r: "datavalid (eepromdata (retrieve_fcnt s)) = DATAVALID
           \<and> bkp (retrieve_fcnt s) BKP_R_DATAVALID = DATAVALID
           \<and> datavalid (EEPROM (retrieve_fcnt s)) = DATAVALID"
    by (simp add: retrieve_defs driver_defs Let_def bkp_regs_distinct)
  have j: "datavalid (eepromdata (setup_join t)) = datavalid (eepromdata t)
           \<and> bkp (setup_join t) BKP_R_DATAVALID = bkp t BKP_R_DATAVALID"
    by (simp add: setup_join_def driver_defs Let_def bkp_regs_distinct)
  have a: "datavalid (eepromdata (setup_abp t)) = datavalid (eepromdata t)
           \<and> bkp (setup_abp t) BKP_R_DATAVALID = bkp t BKP_R_DATAVALID"
    by (simp add: setup_abp_def driver_defs Let_def)
  have p: "datavalid (eepromdata (send_packet t)) = datavalid (eepromdata t)
           \<and> bkp (send_packet t) BKP_R_DATAVALID = bkp t BKP_R_DATAVALID"
    by (simp add: send_packet_def driver_defs Let_def)
  have e: "datavalid (eepromdata (onLmicEvent ev t)) = datavalid (eepromdata t)
           \<and> bkp (onLmicEvent ev t) BKP_R_DATAVALID = bkp t BKP_R_DATAVALID"
    by (cases ev) (simp_all add: driver_defs Let_def bkp_regs_distinct)
  have l: "datavalid (eepromdata (loop ms t)) = datavalid (eepromdata t)
           \<and> bkp (loop ms t) BKP_R_DATAVALID = bkp t BKP_R_DATAVALID"
    by (simp add: loop_def saveOTAAkeys_def driver_defs Let_def)
  from r j a p e l show ?thesis by blast
qed

section \<open>A send cycle that finds a transmission pending\<close>

text \<open>
  Claim C9. When \<^verbatim>\<open>LMIC.opmode\<close> has \<^verbatim>\<open>OP_TXRXPEND\<close> set, \<^verbatim>\<open>send_packet\<close> returns the
  state it was given: no packet is queued, and the uplink counter, the EEPROM
  record, the back-up registers and the LED output are unchanged.
\<close>

theorem send_packet_pending_skips:
  assumes "opmode (LMIC s) AND OP_TXRXPEND \<noteq> 0"
  shows "send_packet s = s"
  using assms by (simp add: send_packet_def)

theorem send_packet_pending_skips_witness:
  "opmode (LMIC (power_up saved_session (bkp_bank DATAVALID 205 10)
                    (lmic_after_reset\<lparr>opmode := OP_TXRXPEND\<rparr>))) AND OP_TXRXPEND \<noteq> 0
   \<and> send_packet (power_up saved_session (bkp_bank DATAVALID 205 10)
                    (lmic_after_reset\<lparr>opmode := OP_TXRXPEND\<rparr>))
       = power_up saved_session (bkp_bank DATAVALID 205 10)
                    (lmic_after_reset\<lparr>opmode := OP_TXRXPEND\<rparr>)"
  using send_packet_pending_skips
          [of "power_up saved_session (bkp_bank DATAVALID 205 10)
                 (lmic_after_reset\<lparr>opmode := OP_TXRXPEND\<rparr>)"]
  by (simp add: power_up_fields OP_TXRXPEND_def)

section \<open>Scenario C: the saved session is resumed\<close>

text \<open>
  Claim C3. On a boot whose EEPROM record is valid with \<^verbatim>\<open>fcnt\<close> 200 and
  \<^verbatim>\<open>joinedFlag\<close> set, and whose back-up registers are valid with frame counter 205
  and transmit count 10, \<^verbatim>\<open>retrieve_fcnt\<close> leaves 205 in \<^verbatim>\<open>eepromdata.fcnt\<close>, and
  \<^verbatim>\<open>setup\<close> resumes the session: it copies the saved device address and the two
  session keys into \<^verbatim>\<open>DevAddr\<close>, \<^verbatim>\<open>NwkSKey\<close> and \<^verbatim>\<open>AppSKey\<close>, switches to
  \<^verbatim>\<open>JOINMODE_ABP\<close>, hands address, keys and the counter 205 to the radio library,
  writes 11 to the transmit count and leaves the EEPROM as it was.
\<close>

theorem scenario_c_resumes_session:
  assumes "datavalid e = DATAVALID" and "fcnt e = 200" and "joinedFlag e"
    and "regs BKP_R_DATAVALID = DATAVALID" and "regs BKP_R_FCNT = 205"
    and "regs BKP_R_XMITCNT = 10"
    and "length (nwkSKey e) = 16" and "length (appSKey e) = 16"
  shows "effective_fcnt (power_up e regs lm) = 205
     \<and> selected_policy (power_up e regs lm) = ResumingSession
     \<and> JoinMode (setup_main (power_up e regs lm)) = JOINMODE_ABP
     \<and> DevAddr (setup_main (power_up e regs lm)) = devaddr e
     \<and> NwkSKey (setup_main (power_up e regs lm)) = nwkSKey e
     \<and> AppSKey (setup_main (power_up e regs lm)) = appSKey e
     \<and> lmic_devaddr (LMIC (setup_main (power_up e regs lm))) = devaddr e
     \<and> take 16 (lmic_nwkSKey (LMIC (setup_main (power_up e regs lm)))) = nwkSKey e
     \<and> take 16 (lmic_appSKey (LMIC (setup_main (power_up e regs lm)))) = appSKey e
     \<and> seqnoUp (LMIC (setup_main (power_up e regs lm))) = 205
     \<and> bkp (setup_main (power_up e regs lm)) BKP_R_XMITCNT = 11
     \<and> EEPROM (setup_main (power_up e regs lm)) = e"
proof -
  define r where "r = retrieve_fcnt (power_up e regs lm)"
  have mode: "JoinMode r = JOINMODE_OTAA"
    by (simp add: r_def retrieve_fields power_up_fields)
  have cnt: "xmitcount r = 10" "fcnt (eepromdata r) = 205"
    using assms by (simp_all add: r_def retrieve_fields power_up_fields)
  have low: "sint (xmitcount r) < REJOIN_LIMIT"
    by (simp add: cnt REJOIN_LIMIT_def)
  have joined: "joinedFlag (eepromdata r)"
    using assms by (simp add: r_def retrieve_fields power_up_fields)
  have keys: "devaddr (eepromdata r) = devaddr e" "nwkSKey (eepromdata r) = nwkSKey e"
    "appSKey (eepromdata r) = appSKey e" "length (NwkSKey r) = 16" "length (AppSKey r) = 16"
    by (simp_all add: r_def retrieve_fields power_up_fields power_up_keys)
  have stored: "EEPROM r = e"
    using assms by (simp add: r_def retrieve_fcnt_EEPROM power_up_fields)
  note res = setup_session_resume [OF mode low joined]
  have eff: "effective_fcnt (power_up e regs lm) = 205"
    using cnt by (simp add: effective_fcnt_def r_def)
  have pol: "selected_policy (power_up e regs lm) = ResumingSession"
    by (simp add: selected_policy_def setup_main_def r_def [symmetric] res)
  have a: "DevAddr (setup_session r) = devaddr e" "NwkSKey (setup_session r) = nwkSKey e"
    "AppSKey (setup_session r) = appSKey e"
    using assms keys by (simp_all add: res memcpy_def)
  have b: "lmic_devaddr (LMIC (setup_session r)) = devaddr e"
    "take 16 (lmic_nwkSKey (LMIC (setup_session r))) = nwkSKey e"
    "take 16 (lmic_appSKey (LMIC (setup_session r))) = appSKey e"
    using assms keys by (simp_all add: res memcpy_def)
  have c: "seqnoUp (LMIC (setup_session r)) = 205" "bkp (setup_session r) BKP_R_XMITCNT = 11"
    "EEPROM (setup_session r) = e"
    using cnt stored by (simp_all add: res)
  from eff pol a b c res(1) show ?thesis
    by (simp add: setup_main_def r_def [symmetric])
qed

theorem scenario_c_resumes_session_witness:
  "datavalid saved_session = DATAVALID \<and> fcnt saved_session = 200 \<and> joinedFlag saved_session
   \<and> length (nwkSKey saved_session) = 16 \<and> length (appSKey saved_session) = 16
   \<and> bkp_bank DATAVALID 205 10 BKP_R_DATAVALID = DATAVALID
   \<and> bkp_bank DATAVALID 205 10 BKP_R_FCNT = 205
   \<and> bkp_bank DATAVALID 205 10 BKP_R_XMITCNT = 10
   \<and> effective_fcnt (power_up saved_session (bkp_bank DATAVALID 205 10) lmic_after_reset) = 205
   \<and> selected_policy (power_up saved_session (bkp_bank DATAVALID 205 10) lmic_after_reset)
       = ResumingSession
   \<and> DevAddr (setup_main (power_up saved_session (bkp_bank DATAVALID 205 10) lmic_after_reset))
       = 0x260B1234"
  using scenario_c_resumes_session [of saved_session "bkp_bank DATAVALID 205 10" lmic_after_reset]
  by (simp add: example_defs bkp_regs_distinct)



section \<open>The sleep time\<close>

lemma u32_mul_div_le: "(iv * 1000) div 1000 \<le> (iv :: u32)"
proof -
  have "unat ((iv * 1000) div 1000) = (unat iv * 1000 mod 2 ^ 32) div 1000"
    by (simp add: unat_div unat_word_ariths)
  also have "\<dots> \<le> (unat iv * 1000) div 1000"
    by (rule div_le_mono) simp
  also have "\<dots> = unat iv" by simp
  finally show ?thesis by (simp add: word_le_nat_alt)
qed

lemma sleep_ms_bound:
  "unat (fst (compute_sleep interval ms)) \<le> unat interval * 1000 + 999"
proof -
  have "fst (compute_sleep interval ms) div 1000 \<le> interval"
    by (auto simp add: compute_sleep_def Let_def u32_mul_div_le not_less)
  then have "unat (fst (compute_sleep interval ms)) div 1000 \<le> unat interval"
    by (simp add: word_le_nat_alt unat_div)
  then show ?thesis by arith
qed

lemma sleep_no_wrap:
  assumes "unat ms + 50 \<le> unat interval * 1000" and "unat interval * 1000 < 2 ^ 32"
  shows "unat (fst (compute_sleep interval ms)) = unat interval * 1000 - unat ms - 50"
proof -
  have m: "unat (interval * 1000) = unat interval * 1000"
    using assms(2) by (simp add: unat_word_ariths)
  have le1: "ms \<le> interval * 1000"
    using assms(1) m by (simp add: word_le_nat_alt)
  have s1: "unat (interval * 1000 - ms) = unat interval * 1000 - unat ms"
    using le1 m by (simp add: unat_sub)
  have le2: "50 \<le> interval * 1000 - ms"
    using assms(1) s1 by (simp add: word_le_nat_alt)
  have s2: "unat (interval * 1000 - ms - 50) = unat interval * 1000 - unat ms - 50"
    using le2 s1 by (simp add: unat_sub)
  have "unat ((interval * 1000 - ms - 50) div 1000) \<le> unat interval"
    using s2 by (simp add: unat_div)
  then have "\<not> interval < (interval * 1000 - ms - 50) div 1000"
    by (simp add: word_less_nat_alt)
  then show ?thesis using s2 by (simp add: compute_sleep_def Let_def)
qed

text \<open>
  Claim C6, as the code has it. With \<^verbatim>\<open>sleeptime = tx_interval_sec * 1000 - millis() - 50\<close>
  in unsigned 32-bit arithmetic, the number of seconds the loop ends with never
  exceeds \<^verbatim>\<open>tx_interval_sec\<close>, whatever \<^verbatim>\<open>millis()\<close> returned, and the milliseconds
  handed to \<^verbatim>\<open>LowPower.shutdown\<close> never exceed \<^verbatim>\<open>tx_interval_sec * 1000\<close> by more than
  999. When the subtraction does not wrap (\<^verbatim>\<open>millis() + 50\<close> is at most
  \<^verbatim>\<open>tx_interval_sec * 1000\<close>) they are the difference, and so at most
  \<^verbatim>\<open>tx_interval_sec * 1000\<close>. Whenever the derived \<^verbatim>\<open>sleeptime_sec\<close> exceeds
  \<^verbatim>\<open>tx_interval_sec\<close>, the result is exactly \<^verbatim>\<open>tx_interval_sec * 1000\<close> milliseconds and
  \<^verbatim>\<open>tx_interval_sec\<close> seconds; otherwise it is the derived pair.
\<close>

theorem compute_sleep_bounds:
  "snd (compute_sleep interval ms) \<le> interval
   \<and> fst (compute_sleep interval ms) div 1000 \<le> interval
   \<and> unat (fst (compute_sleep interval ms)) \<le> unat interval * 1000 + 999
   \<and> (unat ms + 50 \<le> unat interval * 1000 \<and> unat interval * 1000 < 2 ^ 32
        \<longrightarrow> unat (fst (compute_sleep interval ms)) = unat interval * 1000 - unat ms - 50
            \<and> unat (fst (compute_sleep interval ms)) \<le> unat interval * 1000)
   \<and> (interval < (interval * 1000 - ms - 50) div 1000
        \<longrightarrow> compute_sleep interval ms = (interval * 1000, interval))
   \<and> (\<not> interval < (interval * 1000 - ms - 50) div 1000
        \<longrightarrow> compute_sleep interval ms
            = (interval * 1000 - ms - 50, (interval * 1000 - ms - 50) div 1000))"
proof -
  have a: "snd (compute_sleep interval ms) \<le> interval
   \<and> fst (compute_sleep interval ms) div 1000 \<le> interval
   \<and> (interval < (interval * 1000 - ms - 50) div 1000
        \<longrightarrow> compute_sleep interval ms = (interval * 1000, interval))
   \<and> (\<not> interval < (interval * 1000 - ms - 50) div 1000
        \<longrightarrow> compute_sleep interval ms
            = (interval * 1000 - ms - 50, (interval * 1000 - ms - 50) div 1000))"
    by (auto simp add: compute_sleep_def Let_def u32_mul_div_le not_less)
  have b: "unat ms + 50 \<le> unat interval * 1000 \<and> unat interval * 1000 < 2 ^ 32
        \<longrightarrow> unat (fst (compute_sleep interval ms)) = unat interval * 1000 - unat ms - 50
            \<and> unat (fst (compute_sleep interval ms)) \<le> unat interval * 1000"
    by (simp add: sleep_no_wrap)
  from a b sleep_ms_bound [of interval ms] show ?thesis by blast
qed

theorem compute_sleep_bounds_witness:
  "(60 :: u32) < (60 * 1000 - 70000 - 50) div 1000
   \<and> compute_sleep 60 70000 = (60000, 60)
   \<and> \<not> (60 :: u32) < (60 * 1000 - 5000 - 50) div 1000
   \<and> unat (5000 :: u32) + 50 \<le> unat (60 :: u32) * 1000
   \<and> unat (60 :: u32) * 1000 < (2 :: nat) ^ 32
   \<and> compute_sleep 60 5000 = (54950, 54)"
  using compute_sleep_bounds [of 60 70000] compute_sleep_bounds [of 60 5000]
  by simp

text \<open>
  The clamp tests whole seconds: with an interval of 60 and \<^verbatim>\<open>millis()\<close> at
  4294966247 the wrapped subtraction gives 60999, whose whole seconds are 60, so
  the clamp does not apply and the device sleeps 60999 milliseconds, more than
  60 seconds.
\<close>

theorem sleep_exceeds_interval_by_truncation:
  "compute_sleep 60 4294966247 = (60999, 60)
   \<and> (60 :: u32) * 1000 < fst (compute_sleep 60 4294966247)
   \<and> unat (60 :: u32) * 1000 < unat (fst (compute_sleep 60 4294966247))"
  by (simp add: compute_sleep_def Let_def)

section \<open>The counter from one boot to the next\<close>

lemma checkpoint_self: "(n :: nat) \<le> (n div 100 + 1) * 100"
proof -
  define q r where "q = n div 100" and "r = n mod 100"
  have "n = q * 100 + r" and "r < 100"
    by (simp_all add: q_def r_def)
  then have "n \<le> (q + 1) * 100" by simp
  then show ?thesis by (simp add: q_def)
qed

lemma checkpoint_arith:
  fixes d f :: nat
  assumes "d \<le> f" and "f \<le> (d div 100 + 1) * 100"
  shows "f \<le> d + 100"
    and "f mod 100 \<noteq> 0 \<Longrightarrow> f + 1 \<le> (d div 100 + 1) * 100"
    and "f + 1 \<le> (f div 100 + 1) * 100"
proof -
  define q r where "q = d div 100" and "r = d mod 100"
  have d: "d = q * 100 + r"
    by (simp add: q_def r_def)
  have top: "f \<le> (q + 1) * 100"
    using assms(2) by (simp add: q_def)
  show "f \<le> d + 100"
    using top d by simp
  show "f + 1 \<le> (d div 100 + 1) * 100" if "f mod 100 \<noteq> 0"
  proof -
    have "f \<noteq> (q + 1) * 100"
      using that by auto
    with top have "f + 1 \<le> (q + 1) * 100" by simp
    then show ?thesis by (simp add: q_def)
  qed
  define p t where "p = f div 100" and "t = f mod 100"
  have "f = p * 100 + t" and "t < 100"
    by (simp_all add: p_def t_def)
  then have "f + 1 \<le> (p + 1) * 100" by simp
  then show "f + 1 \<le> (f div 100 + 1) * 100" by (simp add: p_def)
qed

lemma selected_policy_power_up:
  "selected_policy (power_up e regs lm) =
     (if sint (xmitcount (retrieve_fcnt (power_up e regs lm))) < REJOIN_LIMIT
         \<and> joinedFlag (eepromdata (retrieve_fcnt (power_up e regs lm)))
      then ResumingSession else NeedsJoin)"
proof -
  define r where "r = retrieve_fcnt (power_up e regs lm)"
  have mode: "JoinMode r = JOINMODE_OTAA"
    by (simp add: r_def retrieve_fields power_up_fields)
  show ?thesis
  proof (cases "sint (xmitcount r) < REJOIN_LIMIT \<and> joinedFlag (eepromdata r)")
    case True
    then have "JoinMode (setup_session r) = JOINMODE_ABP"
      using setup_session_resume(1) [OF mode] by simp
    with True show ?thesis
      by (simp add: selected_policy_def setup_main_def r_def [symmetric])
  next
    case False
    have "JoinMode (setup_session r) = JOINMODE_OTAA"
      using setup_session_join(1) [OF mode False] .
    with False show ?thesis
      by (simp add: selected_policy_def setup_main_def r_def [symmetric]
            JOINMODE_OTAA_def JOINMODE_ABP_def)
  qed
qed

lemma join_boot_stores:
  assumes "selected_policy (power_up e regs lm) = NeedsJoin"
  shows "fcnt (EEPROM (setup_main (power_up e regs lm))) = effective_fcnt (power_up e regs lm)"
    and "joinedFlag (eepromdata (setup_main (power_up e regs lm))) = False"
proof -
  define r where "r = retrieve_fcnt (power_up e regs lm)"
  have mode: "JoinMode r = JOINMODE_OTAA"
    by (simp add: r_def retrieve_fields power_up_fields)
  have high: "\<not> (sint (xmitcount r) < REJOIN_LIMIT \<and> joinedFlag (eepromdata r))"
    using assms by (simp add: selected_policy_power_up r_def split: if_splits)
  note j = setup_session_join [OF mode high]
  show "fcnt (EEPROM (setup_main (power_up e regs lm))) = effective_fcnt (power_up e regs lm)"
    by (simp add: setup_main_def effective_fcnt_def r_def [symmetric] j)
  show "joinedFlag (eepromdata (setup_main (power_up e regs lm))) = False"
    by (simp add: setup_main_def r_def [symmetric] j)
qed

lemma resumed_boot_stores:
  assumes pol: "selected_policy (power_up e regs lm) = ResumingSession"
    and inv: "checkpointed e regs"
    and bound: "unat (effective_fcnt (power_up e regs lm)) + 201 < 2 ^ 32"
  shows "effective_fcnt (power_up e regs lm) = regs BKP_R_FCNT"
    and "unat (fcnt e) \<le> unat (regs BKP_R_FCNT)"
    and "unat (regs BKP_R_FCNT) \<le> (unat (fcnt e) div 100 + 1) * 100"
    and "joinedFlag (eepromdata (setup_main (power_up e regs lm))) = True"
    and "fcnt (EEPROM (setup_main (power_up e regs lm))) =
           (if opmode lm AND OP_TXRXPEND = 0 \<and> regs BKP_R_FCNT mod 100 = 0
            then regs BKP_R_FCNT else fcnt e)"
proof -
  define r where "r = retrieve_fcnt (power_up e regs lm)"
  have mode: "JoinMode r = JOINMODE_OTAA" and lmr: "LMIC r = lm"
    by (simp_all add: r_def retrieve_fields power_up_fields)
  have low: "sint (xmitcount r) < REJOIN_LIMIT" and jf: "joinedFlag (eepromdata r)"
    using pol by (simp_all add: selected_policy_power_up r_def split: if_splits)
  have ev: "datavalid e = DATAVALID"
    using jf by (simp add: r_def retrieve_fields power_up_fields)
  have rv: "regs BKP_R_DATAVALID = DATAVALID"
    using low by (auto simp add: r_def retrieve_fields power_up_fields REJOIN_LIMIT_def
          split: if_splits)
  show eff: "effective_fcnt (power_up e regs lm) = regs BKP_R_FCNT"
    using rv by (simp add: effective_fcnt_power_up)
  show lo: "unat (fcnt e) \<le> unat (regs BKP_R_FCNT)"
    and hi: "unat (regs BKP_R_FCNT) \<le> (unat (fcnt e) div 100 + 1) * 100"
    using inv ev rv by (simp_all add: checkpointed_def)
  have "unat (fcnt e) + 201 < 2 ^ 32"
    using bound lo eff by simp
  then have "unat (fcnt e + 101 + 100) = unat (fcnt e) + 201"
    by (simp add: unat_word_ariths)
  moreover have "unat (regs BKP_R_FCNT) \<le> unat (fcnt e) + 100"
    using checkpoint_arith(1) [OF lo hi] .
  ultimately have keep: "\<not> regs BKP_R_FCNT > fcnt e + 101 + 100"
    by (simp add: word_less_nat_alt)
  have er: "EEPROM r = e"
    using ev keep by (simp add: r_def retrieve_fcnt_EEPROM power_up_fields)
  have fr: "fcnt (eepromdata r) = regs BKP_R_FCNT"
    using rv by (simp add: r_def retrieve_fields power_up_fields)
  note res = setup_session_resume [OF mode low jf]
  show "joinedFlag (eepromdata (setup_main (power_up e regs lm))) = True"
    using jf by (simp add: setup_main_def r_def [symmetric] res)
  show "fcnt (EEPROM (setup_main (power_up e regs lm))) =
           (if opmode lm AND OP_TXRXPEND = 0 \<and> regs BKP_R_FCNT mod 100 = 0
            then regs BKP_R_FCNT else fcnt e)"
    using er fr by (simp add: setup_main_def r_def [symmetric] res lmr)
qed

lemma tx_complete_fcnt:
  "fcnt (EEPROM (tx_complete lm ms t)) =
     (if joinedFlag (eepromdata t) then fcnt (EEPROM t) else seqnoUp lm)"
  by (simp add: tx_complete_def loop_def saveOTAAkeys_def driver_defs Let_def)

lemma boot_end_valid:
  "bkp (boot_end tx s) BKP_R_DATAVALID = DATAVALID"
  "datavalid (EEPROM (boot_end tx s)) = DATAVALID"
  by (cases tx; simp add: boot_end_def tx_complete_stores setup_main_stores split: prod.split)+

lemma boot_end_idle:
  "bkp (boot_end None s) BKP_R_FCNT = effective_fcnt s"
  "fcnt (EEPROM (boot_end None s)) = fcnt (EEPROM (setup_main s))"
  by (simp_all add: boot_end_def setup_main_stores)

lemma boot_end_tx:
  "bkp (boot_end (Some (lm, ms)) s) BKP_R_FCNT = seqnoUp lm"
  "fcnt (EEPROM (boot_end (Some (lm, ms)) s)) =
     (if joinedFlag (eepromdata (setup_main s)) then fcnt (EEPROM (setup_main s))
      else seqnoUp lm)"
  by (simp_all add: boot_end_def tx_complete_stores tx_complete_fcnt)

lemma wake_counter:
  "effective_fcnt (wake_warm lm2 (boot_end tx s)) = bkp (boot_end tx s) BKP_R_FCNT"
  "effective_fcnt (wake_cold lm2 (boot_end tx s)) = fcnt (EEPROM (boot_end tx s)) + 101"
  by (simp_all add: wake_warm_def wake_cold_def effective_fcnt_power_up boot_end_valid
        DATAVALID_def)

lemma checkpointedI:
  "unat (fcnt e) \<le> unat (regs BKP_R_FCNT) \<Longrightarrow>
   unat (regs BKP_R_FCNT) \<le> (unat (fcnt e) div 100 + 1) * 100 \<Longrightarrow> checkpointed e regs"
  by (simp add: checkpointed_def)

lemma boot_step:
  assumes inv: "checkpointed e regs"
    and ok: "stack_step tx (power_up e regs lm)"
  shows "checkpointed (EEPROM (boot_end tx (power_up e regs lm)))
           (bkp (boot_end tx (power_up e regs lm)))"
    and "\<not> join_completed tx (power_up e regs lm) \<Longrightarrow>
           effective_fcnt (power_up e regs lm)
             \<le> effective_fcnt (wake_warm lm2 (boot_end tx (power_up e regs lm)))"
    and "\<not> join_completed tx (power_up e regs lm) \<Longrightarrow>
           effective_fcnt (power_up e regs lm)
             < effective_fcnt (wake_cold lm2 (boot_end tx (power_up e regs lm)))"
proof -
  define s where "s = power_up e regs lm"
  define E where "E = effective_fcnt s"
  define b where "b = boot_end tx s"
  define X where "X = bkp b BKP_R_FCNT"
  define Y where "Y = fcnt (EEPROM b)"
  have bound: "unat E + 201 < 2 ^ 32"
    using ok by (simp add: stack_step_def s_def E_def)
  have E1: "unat (E + 1) = unat E + 1"
    using bound by (simp add: unat_word_ariths)
  have facts: "unat Y \<le> unat X \<and> unat X \<le> (unat Y div 100 + 1) * 100
      \<and> (\<not> join_completed tx s \<longrightarrow> unat E \<le> unat X \<and> unat Y \<le> unat E \<and> unat E \<le> unat Y + 100)"
  proof (cases "selected_policy s")
    case NeedsJoin
    note st = join_boot_stores [OF NeedsJoin [unfolded s_def], folded s_def E_def]
    show ?thesis
    proof (cases tx)
      case None
      have "X = E" "Y = E"
        using None st(1) by (simp_all add: X_def Y_def b_def boot_end_idle E_def)
      then show ?thesis using checkpoint_self [of "unat E"] by simp
    next
      case (Some p)
      obtain lm1 ms where p: "p = (lm1, ms)" by (cases p)
      have "X = seqnoUp lm1" "Y = seqnoUp lm1"
        using Some p st(2) by (simp_all add: X_def Y_def b_def boot_end_tx)
      moreover have "join_completed tx s"
        using Some NeedsJoin by (simp add: join_completed_def)
      ultimately show ?thesis using checkpoint_self [of "unat (seqnoUp lm1)"] by simp
    qed
  next
    case ResumingSession
    note st = resumed_boot_stores [OF ResumingSession [unfolded s_def] inv
                bound [unfolded E_def s_def], folded s_def E_def]
    have Ef: "regs BKP_R_FCNT = E" using st(1) by simp
    have lo: "unat (fcnt e) \<le> unat E" and hi: "unat E \<le> (unat (fcnt e) div 100 + 1) * 100"
      using st(2,3) Ef by simp_all
    have "unat (E mod 100) = unat E mod 100"
      by (simp add: unat_mod)
    then have m: "(E mod 100 = 0) = (unat E mod 100 = 0)"
      using unat_0_iff [of "E mod 100"] by simp
    define dS where "dS = fcnt (EEPROM (setup_main s))"
    have dS: "dS = (if opmode lm AND OP_TXRXPEND = 0 \<and> unat E mod 100 = 0 then E else fcnt e)"
      using st(5) Ef m by (simp add: dS_def)
    have dlo: "unat (fcnt e) \<le> unat dS" and dhi: "unat dS \<le> unat E"
      using lo by (simp_all add: dS)
    have near: "unat E \<le> unat dS + 100"
      using checkpoint_arith(1) [OF lo hi] dlo by arith
    show ?thesis
    proof (cases tx)
      case None
      have XY: "X = E" "Y = dS"
        using None by (simp_all add: X_def Y_def b_def boot_end_idle E_def dS_def)
      have "unat E \<le> (unat dS div 100 + 1) * 100"
        using hi checkpoint_self [of "unat E"] by (simp add: dS)
      then show ?thesis using XY dhi near by simp
    next
      case (Some p)
      obtain lm1 ms where p: "p = (lm1, ms)" by (cases p)
      have q: "seqnoUp lm1 = E + 1" and idle: "opmode lm AND OP_TXRXPEND = 0"
        using ok Some p ResumingSession
        by (simp_all add: stack_step_def s_def [symmetric] E_def)
           (simp add: s_def power_up_fields)
      have XY: "X = E + 1" "Y = dS"
        using Some p q st(4) by (simp_all add: X_def Y_def b_def boot_end_tx dS_def)
      have "unat E + 1 \<le> (unat dS div 100 + 1) * 100"
        using checkpoint_arith(2,3) [OF lo hi] idle by (simp add: dS)
      then show ?thesis using XY dhi near E1 by simp
    qed
  qed
  have warm: "effective_fcnt (wake_warm lm2 b) = X"
    and cold: "effective_fcnt (wake_cold lm2 b) = Y + 101"
    by (simp_all add: b_def X_def Y_def wake_counter)
  show "checkpointed (EEPROM (boot_end tx (power_up e regs lm)))
           (bkp (boot_end tx (power_up e regs lm)))"
    using facts by (intro checkpointedI) (simp_all add: X_def Y_def b_def s_def)
  show "effective_fcnt (power_up e regs lm)
             \<le> effective_fcnt (wake_warm lm2 (boot_end tx (power_up e regs lm)))"
    if "\<not> join_completed tx (power_up e regs lm)"
    using that facts warm by (simp add: word_le_nat_alt E_def s_def b_def)
  show "effective_fcnt (power_up e regs lm)
             < effective_fcnt (wake_cold lm2 (boot_end tx (power_up e regs lm)))"
    if nj: "\<not> join_completed tx (power_up e regs lm)"
  proof -
    from nj facts have yE: "unat Y \<le> unat E" and Ey: "unat E \<le> unat Y + 100"
      by (simp_all add: s_def)
    have "unat (Y + 101) = unat Y + 101"
      using bound yE by (simp add: unat_word_ariths)
    with Ey have "unat E < unat (Y + 101)" by simp
    then show ?thesis
      using cold by (simp add: word_less_nat_alt E_def s_def b_def)
  qed
qed


lemma session_counters_shape:
  "\<exists>t segs. session_counters s h = (effective_fcnt s # t) # segs"
proof (cases h)
  case Nil
  then show ?thesis by simp
next
  case (Cons c h')
  obtain tx k lm2 where c: "c = (tx, k, lm2)" by (cases c)
  show ?thesis
    by (cases "session_counters (next_boot (tx, k, lm2) s) h'") (simp_all add: Cons c)
qed

lemma sessions_sorted:
  "checkpointed e regs \<Longrightarrow> stack_steps (power_up e regs lm) h \<Longrightarrow>
     list_all sorted (session_counters (power_up e regs lm) h)"
proof (induction h arbitrary: e regs lm)
  case Nil
  then show ?case by simp
next
  case (Cons c h)
  define s where "s = power_up e regs lm"
  obtain tx k lm2 where c: "c = (tx, k, lm2)" by (cases c)
  from Cons.prems c have step: "stack_step tx s"
    and rest: "stack_steps (next_boot (tx, k, lm2) s) h" by (simp_all add: s_def)
  have inv': "checkpointed (EEPROM (boot_end tx s)) (bkp (boot_end tx s))"
    using boot_step(1) [OF Cons.prems(1) step [unfolded s_def]] by (simp add: s_def)
  have nb: "\<exists>e' regs'. checkpointed e' regs' \<and> next_boot (tx, k, lm2) s = power_up e' regs' lm2"
  proof (cases k)
    case DeepSleep
    then show ?thesis using inv' by (auto simp add: wake_warm_def)
  next
    case ColdLoss
    have "checkpointed (EEPROM (boot_end tx s)) (\<lambda>r. 0)"
      by (simp add: checkpointed_def DATAVALID_def)
    then show ?thesis using ColdLoss by (auto simp add: wake_cold_def)
  qed
  then obtain e' regs' where inv'': "checkpointed e' regs'"
    and nx: "next_boot (tx, k, lm2) s = power_up e' regs' lm2" by blast
  have ih: "list_all sorted (session_counters (next_boot (tx, k, lm2) s) h)"
    using Cons.IH [OF inv''] rest by (simp add: nx)
  obtain t segs where shape:
    "session_counters (next_boot (tx, k, lm2) s) h
       = (effective_fcnt (next_boot (tx, k, lm2) s) # t) # segs"
    using session_counters_shape by blast
  show ?case
  proof (cases "join_completed tx s")
    case True
    then show ?thesis using ih by (simp add: c s_def [symmetric])
  next
    case False
    have le: "effective_fcnt s \<le> effective_fcnt (next_boot (tx, k, lm2) s)"
    proof (cases k)
      case DeepSleep
      then show ?thesis
        using boot_step(2) [OF Cons.prems(1) step [unfolded s_def], of lm2] False
        by (simp add: s_def)
    next
      case ColdLoss
      then show ?thesis
        using boot_step(3) [OF Cons.prems(1) step [unfolded s_def], of lm2] False
        by (simp add: s_def)
    qed
    from ih shape have "sorted (effective_fcnt (next_boot (tx, k, lm2) s) # t)"
      and "list_all sorted segs" by simp_all
    with le have "sorted (effective_fcnt s # effective_fcnt (next_boot (tx, k, lm2) s) # t)"
      by auto
    then show ?thesis
      using False shape \<open>list_all sorted segs\<close> by (simp add: c s_def [symmetric])
  qed
qed

lemmas history_defs = boot_end_def wake_cold_def wake_warm_def tx_complete_def
  loop_def saveOTAAkeys_def stack_step_def join_completed_def checkpointed_def

text \<open>
  Claim C1, as the code has it. Take a history of boots separated by deep sleeps,
  warm resets or cold power losses, starting from stores as the program leaves them
  (a fresh device included), with counters more than 201 below \<open>2^32\<close>, and a radio
  library that completes the transmission of a resumed boot only if it was idle when
  the packet was queued, advancing the \<^verbatim>\<open>seqnoUp\<close> it was handed by one. Then within
  every session, that is between two
  completed joins, the counter that \<^verbatim>\<open>retrieve_fcnt\<close> yields never goes down from one
  boot to a later one, and the stores stay as the checkpoint leaves them. From a boot
  to the next one the counter
  \<^item> is the same again after a deep sleep or a warm reset with no transmission
    completed in between: the value is used twice;
  \<^item> is the \<^verbatim>\<open>LMIC.seqnoUp\<close> captured at \<^verbatim>\<open>EV_TXCOMPLETE\<close> after a deep sleep that
    follows a completed transmission: one more on a boot that resumed the session,
    the counter of the new session on a boot that joined;
  \<^item> is strictly greater after a cold power loss, unless a join was completed on the
    boot.
  On a boot that resumes the session, the counter handed to the radio library for
  the transmission (\<^verbatim>\<open>LMIC.seqnoUp\<close>) is the one \<^verbatim>\<open>retrieve_fcnt\<close> yielded.
\<close>

theorem session_counters_sorted:
  "(checkpointed e regs \<and> stack_steps (power_up e regs lm) h
      \<longrightarrow> list_all sorted (session_counters (power_up e regs lm) h))
   \<and> (checkpointed e regs \<and> stack_step tx (power_up e regs lm)
      \<longrightarrow> checkpointed (EEPROM (boot_end tx (power_up e regs lm)))
                        (bkp (boot_end tx (power_up e regs lm))))
   \<and> effective_fcnt (next_boot (None, DeepSleep, lm2) (power_up e regs lm))
       = effective_fcnt (power_up e regs lm)
   \<and> effective_fcnt (next_boot (Some (lm1, ms), DeepSleep, lm2) (power_up e regs lm))
       = seqnoUp lm1
   \<and> (checkpointed e regs \<and> stack_step (Some (lm1, ms)) (power_up e regs lm)
       \<and> selected_policy (power_up e regs lm) = ResumingSession
      \<longrightarrow> effective_fcnt (next_boot (Some (lm1, ms), DeepSleep, lm2) (power_up e regs lm))
            = effective_fcnt (power_up e regs lm) + 1
          \<and> effective_fcnt (power_up e regs lm)
            < effective_fcnt (next_boot (Some (lm1, ms), DeepSleep, lm2) (power_up e regs lm)))
   \<and> (checkpointed e regs \<and> stack_step tx (power_up e regs lm)
       \<and> \<not> join_completed tx (power_up e regs lm)
      \<longrightarrow> effective_fcnt (power_up e regs lm)
            < effective_fcnt (next_boot (tx, ColdLoss, lm2) (power_up e regs lm)))
   \<and> (selected_policy (power_up e regs lm) = ResumingSession
      \<longrightarrow> seqnoUp (LMIC (setup_main (power_up e regs lm)))
            = effective_fcnt (power_up e regs lm))"
proof -
  define s where "s = power_up e regs lm"
  have a: "checkpointed e regs \<and> stack_steps s h \<longrightarrow> list_all sorted (session_counters s h)"
    using sessions_sorted by (simp add: s_def)
  have b: "checkpointed e regs \<and> stack_step tx s
      \<longrightarrow> checkpointed (EEPROM (boot_end tx s)) (bkp (boot_end tx s))"
    using boot_step(1) by (simp add: s_def)
  have c: "effective_fcnt (next_boot (None, DeepSleep, lm2) s) = effective_fcnt s"
    "effective_fcnt (next_boot (Some (lm1, ms), DeepSleep, lm2) s) = seqnoUp lm1"
    by (simp_all add: wake_counter boot_end_idle boot_end_tx)
  have d: "checkpointed e regs \<and> stack_step (Some (lm1, ms)) s
       \<and> selected_policy s = ResumingSession
      \<longrightarrow> effective_fcnt (next_boot (Some (lm1, ms), DeepSleep, lm2) s) = effective_fcnt s + 1
          \<and> effective_fcnt s < effective_fcnt (next_boot (Some (lm1, ms), DeepSleep, lm2) s)"
  proof (intro impI, elim conjE)
    assume ok: "stack_step (Some (lm1, ms)) s" and pol: "selected_policy s = ResumingSession"
    from ok pol have q: "seqnoUp lm1 = effective_fcnt s + 1"
      and bound: "unat (effective_fcnt s) + 201 < 2 ^ 32"
      by (simp_all add: stack_step_def)
    from bound have "unat (effective_fcnt s + 1) = unat (effective_fcnt s) + 1"
      by (simp add: unat_word_ariths)
    then have "effective_fcnt s < effective_fcnt s + 1"
      by (simp add: word_less_nat_alt)
    with q c(2)
    show "effective_fcnt (next_boot (Some (lm1, ms), DeepSleep, lm2) s) = effective_fcnt s + 1
          \<and> effective_fcnt s < effective_fcnt (next_boot (Some (lm1, ms), DeepSleep, lm2) s)"
      by simp
  qed
  have f: "checkpointed e regs \<and> stack_step tx s \<and> \<not> join_completed tx s
      \<longrightarrow> effective_fcnt s < effective_fcnt (next_boot (tx, ColdLoss, lm2) s)"
    using boot_step(3) by (simp add: s_def)
  have g: "selected_policy s = ResumingSession
      \<longrightarrow> seqnoUp (LMIC (setup_main s)) = effective_fcnt s"
    by (simp add: selected_policy_def setup_main_def effective_fcnt_def
          setup_session_abp_seqnoUp split: if_splits)
  from a b c d f g show ?thesis unfolding s_def by blast
qed

theorem session_counters_sorted_witness:
  "checkpointed erased_record (bkp_bank 0 0 0)
   \<and> stack_steps (power_up erased_record (bkp_bank 0 0 0) lmic_after_reset) example_history
   \<and> session_counters (power_up erased_record (bkp_bank 0 0 0) lmic_after_reset) example_history
       = [[0], [1, 102], [1, 1]]
   \<and> list_all sorted
        (session_counters (power_up erased_record (bkp_bank 0 0 0) lmic_after_reset)
           example_history)
   \<and> checkpointed saved_session (bkp_bank DATAVALID 205 10)
   \<and> stack_step (Some (lmic_after_reset\<lparr>seqnoUp := 206\<rparr>, 5000))
        (power_up saved_session (bkp_bank DATAVALID 205 10) lmic_after_reset)
   \<and> selected_policy (power_up saved_session (bkp_bank DATAVALID 205 10) lmic_after_reset)
       = ResumingSession
   \<and> \<not> join_completed (Some (lmic_after_reset\<lparr>seqnoUp := 206\<rparr>, 5000))
        (power_up saved_session (bkp_bank DATAVALID 205 10) lmic_after_reset)
   \<and> effective_fcnt (power_up saved_session (bkp_bank DATAVALID 205 10) lmic_after_reset) = 205
   \<and> effective_fcnt (next_boot
        (Some (lmic_after_reset\<lparr>seqnoUp := 206\<rparr>, 5000), DeepSleep, lmic_after_reset)
        (power_up saved_session (bkp_bank DATAVALID 205 10) lmic_after_reset)) = 206
   \<and> effective_fcnt (next_boot
        (Some (lmic_after_reset\<lparr>seqnoUp := 206\<rparr>, 5000), ColdLoss, lmic_after_reset)
        (power_up saved_session (bkp_bank DATAVALID 205 10) lmic_after_reset)) = 301"
  using session_counters_sorted
          [of erased_record "bkp_bank 0 0 0" lmic_after_reset example_history]
        session_counters_sorted
          [of saved_session "bkp_bank DATAVALID 205 10" lmic_after_reset _
              "Some (lmic_after_reset\<lparr>seqnoUp := 206\<rparr>, 5000)"
              lmic_after_reset "lmic_after_reset\<lparr>seqnoUp := 206\<rparr>" 5000]
  by (simp add: closed_defs history_defs example_history_def erased_record_def)

text \<open>
  The counter goes down across a completed join, and a value is used twice when a
  boot is reset before its transmission completes. First history: after a cold power
  loss the boot works with 301 and has to join; the library reports the completed
  transmission with the counter of the new session at 1, and the boot after the deep
  sleep works with 1. Second history: the boot resumes the session with 205 and
  queues the packet for 205; it is reset before the transmission completes, and the
  next boot hands 205 to the library and queues the packet for 205 again. Third
  history: with counters 101 below \<open>2^32\<close> the addition of 101 after a cold power
  loss wraps to 0.
\<close>

theorem counter_regresses_and_repeats:
  "checkpointed saved_session (bkp_bank 0 0 0)
   \<and> boot_counters (power_up saved_session (bkp_bank 0 0 0) lmic_after_reset)
        [(Some (lmic_after_reset\<lparr>seqnoUp := 1\<rparr>, 5000), DeepSleep, lmic_after_reset)]
       = [301, 1]
   \<and> selected_policy (power_up saved_session (bkp_bank 0 0 0) lmic_after_reset) = NeedsJoin
   \<and> \<not> sorted [301, 1 :: u32]
   \<and> checkpointed saved_session (bkp_bank DATAVALID 205 10)
   \<and> boot_counters (power_up saved_session (bkp_bank DATAVALID 205 10) lmic_after_reset)
        [(None, DeepSleep, lmic_after_reset)]
       = [205, 205]
   \<and> seqnoUp (LMIC (setup_main
        (power_up saved_session (bkp_bank DATAVALID 205 10) lmic_after_reset))) = 205
   \<and> pendTx (LMIC (setup_main
        (power_up saved_session (bkp_bank DATAVALID 205 10) lmic_after_reset)))
       = Some (1, ''Test 205'', 0)
   \<and> seqnoUp (LMIC (setup_main (next_boot (None, DeepSleep, lmic_after_reset)
        (power_up saved_session (bkp_bank DATAVALID 205 10) lmic_after_reset)))) = 205
   \<and> pendTx (LMIC (setup_main (next_boot (None, DeepSleep, lmic_after_reset)
        (power_up saved_session (bkp_bank DATAVALID 205 10) lmic_after_reset))))
       = Some (1, ''Test 205'', 0)
   \<and> \<not> distinct [205, 205 :: u32]
   \<and> checkpointed (saved_session\<lparr>fcnt := 0xFFFFFF9B\<rparr>) (bkp_bank DATAVALID 0xFFFFFF9B 10)
   \<and> boot_counters
         (power_up (saved_session\<lparr>fcnt := 0xFFFFFF9B\<rparr>) (bkp_bank DATAVALID 0xFFFFFF9B 10)
            lmic_after_reset)
         [(None, ColdLoss, lmic_after_reset)]
       = [0xFFFFFF9B, 0]
   \<and> \<not> sorted [0xFFFFFF9B, 0 :: u32]"
  by (simp add: closed_defs history_defs test_payload_205 not_le)

section \<open>Both stores valid\<close>

text \<open>
  Claim C2, as the code has it. On a boot where the EEPROM record and the back-up
  registers are both valid, \<^verbatim>\<open>retrieve_fcnt\<close> first sets the counter to the stored
  \<^verbatim>\<open>fcnt\<close> plus 101, and then always takes the frame counter of the back-up registers
  as the counter of the boot, and their transmit count as \<^verbatim>\<open>xmitcount\<close>. The EEPROM
  is rewritten, with that counter, only when the register exceeds the stored
  \<^verbatim>\<open>fcnt\<close> plus 101 plus 100; otherwise it is left as it was. The back-up registers
  are not written.
\<close>

theorem retrieve_fcnt_both_valid:
  assumes "datavalid (EEPROM s) = DATAVALID" and "bkp s BKP_R_DATAVALID = DATAVALID"
  shows "fcnt (eepromdata (fst (retrieve_eeprom s))) = fcnt (EEPROM s) + 101
     \<and> effective_fcnt s = bkp s BKP_R_FCNT
     \<and> xmitcount (retrieve_fcnt s) = bkp s BKP_R_XMITCNT
     \<and> EEPROM (retrieve_fcnt s) =
         (if bkp s BKP_R_FCNT > fcnt (EEPROM s) + 101 + 100
          then (EEPROM s)\<lparr>fcnt := bkp s BKP_R_FCNT\<rparr> else EEPROM s)
     \<and> bkp (retrieve_fcnt s) = bkp s"
proof -
  have a: "fcnt (eepromdata (fst (retrieve_eeprom s))) = fcnt (EEPROM s) + 101"
    using assms by (simp add: retrieve_eeprom_def readEEPROMdata_def Let_def)
  have b: "effective_fcnt s = bkp s BKP_R_FCNT"
    using assms by (simp add: effective_fcnt_def retrieve_fcnt_fcnt)
  have c: "xmitcount (retrieve_fcnt s) = bkp s BKP_R_XMITCNT" "bkp (retrieve_fcnt s) = bkp s"
    using assms by (simp_all add: retrieve_fcnt_xmitcount retrieve_fcnt_bkp)
  have d: "EEPROM (retrieve_fcnt s) =
         (if bkp s BKP_R_FCNT > fcnt (EEPROM s) + 101 + 100
          then (EEPROM s)\<lparr>fcnt := bkp s BKP_R_FCNT\<rparr> else EEPROM s)"
    using assms by (simp add: retrieve_defs driver_defs Let_def)
  from a b c d show ?thesis by simp
qed

theorem retrieve_fcnt_both_valid_witness:
  "datavalid (EEPROM (power_up saved_session (bkp_bank DATAVALID 500 10) lmic_after_reset))
     = DATAVALID
   \<and> bkp (power_up saved_session (bkp_bank DATAVALID 500 10) lmic_after_reset) BKP_R_DATAVALID
     = DATAVALID
   \<and> effective_fcnt (power_up saved_session (bkp_bank DATAVALID 500 10) lmic_after_reset) = 500
   \<and> fcnt (EEPROM (retrieve_fcnt
              (power_up saved_session (bkp_bank DATAVALID 500 10) lmic_after_reset))) = 500"
  using retrieve_fcnt_both_valid
          [of "power_up saved_session (bkp_bank DATAVALID 500 10) lmic_after_reset"]
  by (simp add: power_up_fields example_defs bkp_regs_distinct)

text \<open>
  With 200 in the EEPROM and 205 in the back-up registers the register does not
  exceed 301 plus the margin, and the counter of the boot is 205 all the same, not
  301.
\<close>

theorem small_fast_counter_adopted:
  "datavalid (EEPROM (power_up saved_session (bkp_bank DATAVALID 205 10) lmic_after_reset))
     = DATAVALID
   \<and> bkp (power_up saved_session (bkp_bank DATAVALID 205 10) lmic_after_reset) BKP_R_DATAVALID
     = DATAVALID
   \<and> fcnt (EEPROM (power_up saved_session (bkp_bank DATAVALID 205 10) lmic_after_reset)) + 101
     = 301
   \<and> bkp (power_up saved_session (bkp_bank DATAVALID 205 10) lmic_after_reset) BKP_R_FCNT = 205
   \<and> \<not> (205 :: u32) > 301 + 101
   \<and> effective_fcnt (power_up saved_session (bkp_bank DATAVALID 205 10) lmic_after_reset) = 205
   \<and> effective_fcnt (power_up saved_session (bkp_bank DATAVALID 205 10) lmic_after_reset) \<noteq> 301"
  by (simp add: effective_fcnt_def retrieve_fcnt_fcnt power_up_fields example_defs
        bkp_regs_distinct)

section \<open>Cold power loss\<close>

text \<open>
  Claim C4. On every boot whose back-up register \<^verbatim>\<open>BKP_R_DATAVALID\<close> does not
  hold \<^verbatim>\<open>DATAVALID\<close>, \<^verbatim>\<open>retrieve_fcnt\<close> sets \<^verbatim>\<open>xmitcount\<close> and the register
  \<^verbatim>\<open>BKP_R_XMITCNT\<close> to \<^verbatim>\<open>REJOIN_LIMIT\<close> (300), and \<^verbatim>\<open>setup\<close> takes the join branch
  whatever \<^verbatim>\<open>joinedFlag\<close> the EEPROM holds: \<^verbatim>\<open>JoinMode\<close> stays \<^verbatim>\<open>JOINMODE_OTAA\<close>, the
  EEPROM is written with \<^verbatim>\<open>joinedFlag\<close> false, the transmit count is reset, and no
  session is handed to the radio library. With a valid EEPROM record holding
  \<^verbatim>\<open>fcnt\<close> 200 the counter of the boot is 301.
\<close>

theorem cold_boot_needs_join:
  assumes "regs BKP_R_DATAVALID \<noteq> DATAVALID"
  shows "xmitcount (retrieve_fcnt (power_up e regs lm)) = 300
     \<and> bkp (retrieve_fcnt (power_up e regs lm)) BKP_R_XMITCNT = 300
     \<and> selected_policy (power_up e regs lm) = NeedsJoin
     \<and> JoinMode (setup_main (power_up e regs lm)) = JOINMODE_OTAA
     \<and> joinedFlag (EEPROM (setup_main (power_up e regs lm))) = False
     \<and> bkp (setup_main (power_up e regs lm)) BKP_R_XMITCNT = 0
     \<and> (LMIC (setup_main (power_up e regs lm)))\<lparr>pendTx := pendTx lm\<rparr> = lm
     \<and> (datavalid e = DATAVALID \<and> fcnt e = 200
          \<longrightarrow> effective_fcnt (power_up e regs lm) = 301)"
proof -
  define r where "r = retrieve_fcnt (power_up e regs lm)"
  have mode: "JoinMode r = JOINMODE_OTAA" and lm: "LMIC r = lm"
    by (simp_all add: r_def retrieve_fields power_up_fields)
  have cnt: "xmitcount r = 300" "bkp r BKP_R_XMITCNT = 300"
    using assms by (simp_all add: r_def retrieve_fields power_up_fields)
  have high: "\<not> (sint (xmitcount r) < REJOIN_LIMIT \<and> joinedFlag (eepromdata r))"
    by (simp add: cnt REJOIN_LIMIT_def)
  note j = setup_session_join [OF mode high]
  have pol: "selected_policy (power_up e regs lm) = NeedsJoin"
    by (simp add: selected_policy_def setup_main_def r_def [symmetric] j
          JOINMODE_OTAA_def JOINMODE_ABP_def)
  have eff: "datavalid e = DATAVALID \<and> fcnt e = 200
          \<longrightarrow> effective_fcnt (power_up e regs lm) = 301"
    using assms by (simp add: effective_fcnt_def retrieve_fcnt_fcnt power_up_fields)
  from cnt pol eff j lm show ?thesis
    by (simp add: setup_main_def r_def [symmetric])
qed

theorem cold_boot_needs_join_witness:
  "bkp_bank 0 0 0 BKP_R_DATAVALID \<noteq> DATAVALID
   \<and> datavalid saved_session = DATAVALID \<and> fcnt saved_session = 200
   \<and> joinedFlag saved_session
   \<and> xmitcount (retrieve_fcnt (power_up saved_session (bkp_bank 0 0 0) lmic_after_reset)) = 300
   \<and> selected_policy (power_up saved_session (bkp_bank 0 0 0) lmic_after_reset) = NeedsJoin
   \<and> effective_fcnt (power_up saved_session (bkp_bank 0 0 0) lmic_after_reset) = 301"
  using cold_boot_needs_join [of "bkp_bank 0 0 0" saved_session lmic_after_reset]
  by (simp add: example_defs DATAVALID_def bkp_regs_distinct)

section \<open>The rejoin limit\<close>

text \<open>
  Claim C5. On every boot where \<^verbatim>\<open>xmitcount\<close> (an \<^verbatim>\<open>int32_t\<close>) is at least
  \<^verbatim>\<open>REJOIN_LIMIT\<close> when \<^verbatim>\<open>retrieve_fcnt\<close> returns, \<^verbatim>\<open>setup\<close> takes the join branch,
  also when the EEPROM says the device has joined: the EEPROM is written with
  \<^verbatim>\<open>joinedFlag\<close> false, \<^verbatim>\<open>xmitcount\<close> and \<^verbatim>\<open>BKP_R_XMITCNT\<close> are set to 0, \<^verbatim>\<open>JoinMode\<close>
  stays \<^verbatim>\<open>JOINMODE_OTAA\<close> and no session is handed to the radio library, which
  receives the first packet in that state (unless a transmission is pending).
\<close>

theorem rejoin_limit_needs_join:
  assumes "REJOIN_LIMIT \<le> sint (xmitcount (retrieve_fcnt (power_up e regs lm)))"
  shows "selected_policy (power_up e regs lm) = NeedsJoin
     \<and> JoinMode (setup_main (power_up e regs lm)) = JOINMODE_OTAA
     \<and> joinedFlag (EEPROM (setup_main (power_up e regs lm))) = False
     \<and> bkp (setup_main (power_up e regs lm)) BKP_R_XMITCNT = 0
     \<and> xmitcount (setup_main (power_up e regs lm)) = 0
     \<and> (LMIC (setup_main (power_up e regs lm)))\<lparr>pendTx := pendTx lm\<rparr> = lm
     \<and> (opmode lm AND OP_TXRXPEND = 0 \<longrightarrow>
          pendTx (LMIC (setup_main (power_up e regs lm)))
            = Some (1, test_payload (effective_fcnt (power_up e regs lm)), 0))"
proof -
  define r where "r = retrieve_fcnt (power_up e regs lm)"
  have mode: "JoinMode r = JOINMODE_OTAA" and lm: "LMIC r = lm"
    by (simp_all add: r_def retrieve_fields power_up_fields)
  have high: "\<not> (sint (xmitcount r) < REJOIN_LIMIT \<and> joinedFlag (eepromdata r))"
    using assms by (simp add: r_def)
  note j = setup_session_join [OF mode high]
  have pol: "selected_policy (power_up e regs lm) = NeedsJoin"
    by (simp add: selected_policy_def setup_main_def r_def [symmetric] j
          JOINMODE_OTAA_def JOINMODE_ABP_def)
  have q: "opmode lm AND OP_TXRXPEND = 0 \<longrightarrow>
          pendTx (LMIC (setup_session r)) = Some (1, test_payload (fcnt (eepromdata r)), 0)"
    by (simp add: setup_session_pendTx lm)
  from pol j lm q show ?thesis
    by (simp add: setup_main_def effective_fcnt_def r_def [symmetric])
qed

theorem rejoin_limit_needs_join_witness:
  "REJOIN_LIMIT \<le> sint (xmitcount (retrieve_fcnt
       (power_up saved_session (bkp_bank DATAVALID 205 300) lmic_after_reset)))
   \<and> joinedFlag saved_session
   \<and> joinedFlag (eepromdata (retrieve_fcnt
       (power_up saved_session (bkp_bank DATAVALID 205 300) lmic_after_reset)))
   \<and> selected_policy (power_up saved_session (bkp_bank DATAVALID 205 300) lmic_after_reset)
       = NeedsJoin
   \<and> joinedFlag (EEPROM (setup_main
       (power_up saved_session (bkp_bank DATAVALID 205 300) lmic_after_reset))) = False
   \<and> bkp (setup_main (power_up saved_session (bkp_bank DATAVALID 205 300) lmic_after_reset))
       BKP_R_XMITCNT = 0
   \<and> opmode lmic_after_reset AND OP_TXRXPEND = 0
   \<and> pendTx (LMIC (setup_main
       (power_up saved_session (bkp_bank DATAVALID 205 300) lmic_after_reset)))
       = Some (1, ''Test 205'', 0)"
  using rejoin_limit_needs_join [of saved_session "bkp_bank DATAVALID 205 300" lmic_after_reset]
  by (simp add: retrieve_fields power_up_fields effective_fcnt_power_up example_defs
        bkp_regs_distinct REJOIN_LIMIT_def test_payload_205)

section \<open>The transmit count\<close>

text \<open>
  Claim C7, as the code has it. \<^verbatim>\<open>setup\<close> takes the join branch exactly when
  \<^verbatim>\<open>xmitcount\<close> has reached \<^verbatim>\<open>REJOIN_LIMIT\<close> or the \<^verbatim>\<open>joinedFlag\<close> that
  \<^verbatim>\<open>retrieve_fcnt\<close> left is false, and it is there, before the join is attempted,
  that \<^verbatim>\<open>BKP_R_XMITCNT\<close> is set to 0. On a boot that resumes the session the
  register was valid and changes only by the one increment. \<^verbatim>\<open>retrieve_fcnt\<close> sets
  the register to 300 after a cold power loss and leaves it alone otherwise;
  \<^verbatim>\<open>onLmicEvent\<close> (the join event included), \<^verbatim>\<open>send_packet\<close> and \<^verbatim>\<open>loop\<close> never
  write it.
\<close>

theorem xmitcount_changes:
  "(selected_policy (power_up e regs lm) = NeedsJoin
      \<longleftrightarrow> \<not> (sint (xmitcount (retrieve_fcnt (power_up e regs lm))) < REJOIN_LIMIT
              \<and> joinedFlag (eepromdata (retrieve_fcnt (power_up e regs lm)))))
   \<and> (selected_policy (power_up e regs lm) = NeedsJoin
      \<longrightarrow> bkp (setup_main (power_up e regs lm)) BKP_R_XMITCNT = 0)
   \<and> (selected_policy (power_up e regs lm) = ResumingSession
      \<longrightarrow> regs BKP_R_DATAVALID = DATAVALID
          \<and> bkp (setup_main (power_up e regs lm)) BKP_R_XMITCNT = regs BKP_R_XMITCNT + 1)
   \<and> (regs BKP_R_DATAVALID \<noteq> DATAVALID
      \<longrightarrow> bkp (retrieve_fcnt (power_up e regs lm)) BKP_R_XMITCNT = 300)
   \<and> (regs BKP_R_DATAVALID = DATAVALID
      \<longrightarrow> bkp (retrieve_fcnt (power_up e regs lm)) BKP_R_XMITCNT = regs BKP_R_XMITCNT)
   \<and> bkp (onLmicEvent ev t) BKP_R_XMITCNT = bkp t BKP_R_XMITCNT
   \<and> bkp (send_packet t) BKP_R_XMITCNT = bkp t BKP_R_XMITCNT
   \<and> bkp (loop ms t) BKP_R_XMITCNT = bkp t BKP_R_XMITCNT"
proof -
  define r where "r = retrieve_fcnt (power_up e regs lm)"
  have mode: "JoinMode r = JOINMODE_OTAA"
    by (simp add: r_def retrieve_fields power_up_fields)
  have xr: "xmitcount r = (if regs BKP_R_DATAVALID = DATAVALID then regs BKP_R_XMITCNT else 300)"
    and br: "bkp r BKP_R_XMITCNT
               = (if regs BKP_R_DATAVALID = DATAVALID then regs BKP_R_XMITCNT else 300)"
    by (simp_all add: r_def retrieve_fields power_up_fields)
  have ev: "bkp (onLmicEvent ev t) BKP_R_XMITCNT = bkp t BKP_R_XMITCNT"
    by (cases ev) (simp_all add: driver_defs Let_def bkp_regs_distinct)
  have sp: "bkp (send_packet t) BKP_R_XMITCNT = bkp t BKP_R_XMITCNT"
    by (simp add: send_packet_def driver_defs Let_def)
  have lp: "bkp (loop ms t) BKP_R_XMITCNT = bkp t BKP_R_XMITCNT"
    by (simp add: loop_def saveOTAAkeys_def driver_defs Let_def)
  show ?thesis
  proof (cases "sint (xmitcount r) < REJOIN_LIMIT \<and> joinedFlag (eepromdata r)")
    case True
    then have low: "sint (xmitcount r) < REJOIN_LIMIT" and jf: "joinedFlag (eepromdata r)"
      by simp_all
    note res = setup_session_resume [OF mode low jf]
    have valid: "regs BKP_R_DATAVALID = DATAVALID"
      using low xr by (auto simp add: REJOIN_LIMIT_def split: if_splits)
    have pol: "selected_policy (power_up e regs lm) = ResumingSession"
      by (simp add: selected_policy_def setup_main_def r_def [symmetric] res)
    have x: "bkp (setup_session r) BKP_R_XMITCNT = regs BKP_R_XMITCNT + 1"
      using valid xr by (simp add: res)
    from True pol x valid br ev sp lp show ?thesis
      by (simp add: setup_main_def r_def [symmetric])
  next
    case False
    note j = setup_session_join [OF mode False]
    have pol: "selected_policy (power_up e regs lm) = NeedsJoin"
      by (simp add: selected_policy_def setup_main_def r_def [symmetric] j
            JOINMODE_OTAA_def JOINMODE_ABP_def)
    have x: "bkp (setup_session r) BKP_R_XMITCNT = 0"
      by (simp add: j)
    from False pol x br ev sp lp show ?thesis
      by (simp add: setup_main_def r_def [symmetric])
  qed
qed

theorem xmitcount_changes_witness:
  "selected_policy (power_up saved_session (bkp_bank DATAVALID 205 10) lmic_after_reset)
     = ResumingSession
   \<and> bkp_bank DATAVALID 205 10 BKP_R_DATAVALID = DATAVALID
   \<and> bkp (setup_main (power_up saved_session (bkp_bank DATAVALID 205 10) lmic_after_reset))
       BKP_R_XMITCNT = 11
   \<and> selected_policy (power_up saved_session (bkp_bank 0 0 0) lmic_after_reset) = NeedsJoin
   \<and> bkp_bank 0 0 0 BKP_R_DATAVALID \<noteq> DATAVALID
   \<and> bkp (retrieve_fcnt (power_up saved_session (bkp_bank 0 0 0) lmic_after_reset))
       BKP_R_XMITCNT = 300
   \<and> bkp (setup_main (power_up saved_session (bkp_bank 0 0 0) lmic_after_reset))
       BKP_R_XMITCNT = 0"
  using xmitcount_changes [of saved_session "bkp_bank DATAVALID 205 10" lmic_after_reset]
        xmitcount_changes [of saved_session "bkp_bank 0 0 0" lmic_after_reset]
  by (simp add: closed_defs)

text \<open>
  A boot after a cold power loss: the transmit count is 300 after
  \<^verbatim>\<open>retrieve_fcnt\<close> and 0 when \<^verbatim>\<open>setup\<close> returns, while no event has been delivered
  and the EEPROM says the device has not joined. If the device is reset before the join
  completes, the next boot joins again although the transmit count is 0.
\<close>

theorem xmitcount_reset_before_join:
  "bkp (retrieve_fcnt (power_up saved_session (bkp_bank 0 0 0) lmic_after_reset))
       BKP_R_XMITCNT = 300
   \<and> bkp (setup_main (power_up saved_session (bkp_bank 0 0 0) lmic_after_reset))
       BKP_R_XMITCNT = 0
   \<and> tx_finished (setup_main (power_up saved_session (bkp_bank 0 0 0) lmic_after_reset)) = False
   \<and> joinedFlag (EEPROM (setup_main (power_up saved_session (bkp_bank 0 0 0) lmic_after_reset)))
       = False
   \<and> xmitcount (retrieve_fcnt (wake_warm lmic_after_reset
        (setup_main (power_up saved_session (bkp_bank 0 0 0) lmic_after_reset)))) = 0
   \<and> selected_policy (wake_warm lmic_after_reset
        (setup_main (power_up saved_session (bkp_bank 0 0 0) lmic_after_reset))) = NeedsJoin"
  by (simp add: closed_defs wake_warm_def)

section \<open>An invalid EEPROM record\<close>

text \<open>
  Claim C8, as the code has it. On a boot whose EEPROM record does not hold
  \<^verbatim>\<open>DATAVALID\<close>, \<^verbatim>\<open>retrieve_fcnt\<close> clears \<^verbatim>\<open>joinedFlag\<close>, and writes the record (now
  marked valid) to the EEPROM before it returns; the counter of the boot is 0 when
  the back-up registers are invalid too, and the frame counter of the back-up
  registers when they are valid. \<^verbatim>\<open>setup\<close> then takes the join branch, whatever
  the back-up registers hold.
\<close>

theorem invalid_eeprom_reinitialised:
  assumes "datavalid e \<noteq> DATAVALID"
  shows "effective_fcnt (power_up e regs lm)
           = (if regs BKP_R_DATAVALID = DATAVALID then regs BKP_R_FCNT else 0)
     \<and> joinedFlag (eepromdata (retrieve_fcnt (power_up e regs lm))) = False
     \<and> EEPROM (retrieve_fcnt (power_up e regs lm)) = eepromdata (retrieve_fcnt (power_up e regs lm))
     \<and> datavalid (EEPROM (retrieve_fcnt (power_up e regs lm))) = DATAVALID
     \<and> selected_policy (power_up e regs lm) = NeedsJoin"
proof -
  define r where "r = retrieve_fcnt (power_up e regs lm)"
  have mode: "JoinMode r = JOINMODE_OTAA"
    by (simp add: r_def retrieve_fields power_up_fields)
  have nj: "joinedFlag (eepromdata r) = False"
    using assms by (simp add: r_def retrieve_fields power_up_fields)
  have high: "\<not> (sint (xmitcount r) < REJOIN_LIMIT \<and> joinedFlag (eepromdata r))"
    by (simp add: nj)
  note j = setup_session_join [OF mode high]
  have pol: "selected_policy (power_up e regs lm) = NeedsJoin"
    by (simp add: selected_policy_def setup_main_def r_def [symmetric] j
          JOINMODE_OTAA_def JOINMODE_ABP_def)
  have eff: "effective_fcnt (power_up e regs lm)
           = (if regs BKP_R_DATAVALID = DATAVALID then regs BKP_R_FCNT else 0)"
    using assms by (simp add: effective_fcnt_power_up)
  have sav: "EEPROM r = eepromdata r"
    using assms by (simp add: r_def retrieve_fcnt_EEPROM power_up_fields)
  have v: "datavalid (EEPROM r) = DATAVALID"
    by (simp add: r_def retrieve_fcnt_valid)
  from nj pol eff sav v show ?thesis by (simp add: r_def)
qed

theorem invalid_eeprom_reinitialised_witness:
  "datavalid erased_record \<noteq> DATAVALID
   \<and> effective_fcnt (power_up erased_record (bkp_bank 0 0 0) lmic_after_reset) = 0
   \<and> joinedFlag (eepromdata (retrieve_fcnt
        (power_up erased_record (bkp_bank 0 0 0) lmic_after_reset))) = False
   \<and> datavalid (EEPROM (retrieve_fcnt
        (power_up erased_record (bkp_bank 0 0 0) lmic_after_reset))) = DATAVALID
   \<and> selected_policy (power_up erased_record (bkp_bank 0 0 0) lmic_after_reset) = NeedsJoin"
  using invalid_eeprom_reinitialised [of erased_record "bkp_bank 0 0 0" lmic_after_reset]
  by (simp add: retrieve_fcnt_valid erased_record_def bkp_bank_def DATAVALID_def
        bkp_regs_distinct)

text \<open>
  With an erased EEPROM and valid back-up registers holding 205, the counter of the
  boot is 205, not 0, and 205 is what is written to the EEPROM.
\<close>

theorem invalid_eeprom_valid_rtc_counter:
  "datavalid erased_record \<noteq> DATAVALID
   \<and> bkp_bank DATAVALID 205 10 BKP_R_DATAVALID = DATAVALID
   \<and> effective_fcnt (power_up erased_record (bkp_bank DATAVALID 205 10) lmic_after_reset) = 205
   \<and> fcnt (EEPROM (retrieve_fcnt
        (power_up erased_record (bkp_bank DATAVALID 205 10) lmic_after_reset))) = 205
   \<and> effective_fcnt (power_up erased_record (bkp_bank DATAVALID 205 10) lmic_after_reset) \<noteq> 0"
  by (simp add: closed_defs erased_record_def)

end
